theory Spec2Isabelle
  imports Complex_Main "HOL-Library.Multiset"
begin

section \<open>Values of the Python program\<close>

subsection \<open>Floats\<close>

text \<open>
  A Python/numpy float is a number, one of the two infinities, or NaN (the missing value
  of a pandas series). A number is a real: rounding and the sign of zero are left out,
  but a result beyond the largest double overflows to an infinity. The operations are
  the IEEE ones: NaN propagates through arithmetic, \<open>inf - inf\<close>, \<open>0 * inf\<close>,
  \<open>inf / inf\<close> and \<open>0 / 0\<close> are NaN, and every ordering comparison with NaN is false.
\<close>

datatype pyfloat = Fin real | PInf | NInf | NaN

definition float_max :: real where
  "float_max = 2 ^ 1024 - 2 ^ 971"

definition to_float :: "real \<Rightarrow> pyfloat" where
  "to_float r = (if float_max < r then PInf else if r < - float_max then NInf else Fin r)"

fun isnan :: "pyfloat \<Rightarrow> bool" where
  "isnan NaN = True"
| "isnan x = False"

fun is_finite :: "pyfloat \<Rightarrow> bool" where
  "is_finite (Fin x) = True"
| "is_finite x = False"

fun fneg :: "pyfloat \<Rightarrow> pyfloat" where
  "fneg (Fin a) = Fin (- a)"
| "fneg PInf = NInf"
| "fneg NInf = PInf"
| "fneg NaN = NaN"

fun fadd :: "pyfloat \<Rightarrow> pyfloat \<Rightarrow> pyfloat" where
  "fadd (Fin a) (Fin b) = to_float (a + b)"
| "fadd NaN b = NaN"
| "fadd a NaN = NaN"
| "fadd PInf NInf = NaN"
| "fadd NInf PInf = NaN"
| "fadd PInf b = PInf"
| "fadd a PInf = PInf"
| "fadd NInf b = NInf"
| "fadd a NInf = NInf"

definition fsub :: "pyfloat \<Rightarrow> pyfloat \<Rightarrow> pyfloat" where
  "fsub a b = fadd a (fneg b)"

fun fmul :: "pyfloat \<Rightarrow> pyfloat \<Rightarrow> pyfloat" where
  "fmul (Fin a) (Fin b) = to_float (a * b)"
| "fmul NaN b = NaN"
| "fmul a NaN = NaN"
| "fmul (Fin a) PInf = (if a = 0 then NaN else if 0 < a then PInf else NInf)"
| "fmul (Fin a) NInf = (if a = 0 then NaN else if 0 < a then NInf else PInf)"
| "fmul PInf (Fin b) = (if b = 0 then NaN else if 0 < b then PInf else NInf)"
| "fmul NInf (Fin b) = (if b = 0 then NaN else if 0 < b then NInf else PInf)"
| "fmul PInf PInf = PInf"
| "fmul NInf NInf = PInf"
| "fmul PInf NInf = NInf"
| "fmul NInf PInf = NInf"

text \<open>numpy divides by zero without raising (it warns): the result is an infinity, or
  NaN for \<open>0 / 0\<close>.\<close>

fun fdiv :: "pyfloat \<Rightarrow> pyfloat \<Rightarrow> pyfloat" where
  "fdiv (Fin a) (Fin b) =
     (if b = 0 then (if a = 0 then NaN else if 0 < a then PInf else NInf)
      else to_float (a / b))"
| "fdiv NaN b = NaN"
| "fdiv a NaN = NaN"
| "fdiv (Fin a) b = Fin 0"
| "fdiv PInf (Fin b) = (if 0 \<le> b then PInf else NInf)"
| "fdiv NInf (Fin b) = (if 0 \<le> b then NInf else PInf)"
| "fdiv a b = NaN"

fun fabs :: "pyfloat \<Rightarrow> pyfloat" where
  "fabs (Fin a) = Fin \<bar>a\<bar>"
| "fabs PInf = PInf"
| "fabs NInf = PInf"
| "fabs NaN = NaN"

fun fsqrt :: "pyfloat \<Rightarrow> pyfloat" where
  "fsqrt (Fin a) = (if a < 0 then NaN else Fin (sqrt a))"
| "fsqrt PInf = PInf"
| "fsqrt NInf = NaN"
| "fsqrt NaN = NaN"

fun flt :: "pyfloat \<Rightarrow> pyfloat \<Rightarrow> bool" where
  "flt (Fin a) (Fin b) = (a < b)"
| "flt NaN b = False"
| "flt a NaN = False"
| "flt a NInf = False"
| "flt PInf b = False"
| "flt NInf b = True"
| "flt a PInf = True"

definition fgt :: "pyfloat \<Rightarrow> pyfloat \<Rightarrow> bool" where
  "fgt a b = flt b a"

text \<open>\<^verbatim>\<open>x >= 0\<close>\<close>

fun fge0 :: "pyfloat \<Rightarrow> bool" where
  "fge0 (Fin a) = (0 \<le> a)"
| "fge0 PInf = True"
| "fge0 x = False"

text \<open>\<^verbatim>\<open>x != y\<close>: true whenever either side is NaN.\<close>

definition fne :: "pyfloat \<Rightarrow> pyfloat \<Rightarrow> bool" where
  "fne a b = (isnan a \<or> isnan b \<or> a \<noteq> b)"

text \<open>Truthiness of a float: only zero is false; NaN and the infinities are true.\<close>

fun float_truthy :: "pyfloat \<Rightarrow> bool" where
  "float_truthy (Fin a) = (a \<noteq> 0)"
| "float_truthy x = True"

text \<open>Truthiness of an optional float: \<^verbatim>\<open>None\<close> is false.\<close>

fun opt_truthy :: "pyfloat option \<Rightarrow> bool" where
  "opt_truthy None = False"
| "opt_truthy (Some x) = float_truthy x"

text \<open>\<^verbatim>\<open>round(x, ndigits)\<close> rounds half to even, and leaves NaN and the infinities.\<close>

definition round_half_even :: "real \<Rightarrow> int" where
  "round_half_even y =
     (let f = \<lfloor>y\<rfloor>; d = y - of_int f
      in if d < 1 / 2 then f else if d > 1 / 2 then f + 1
         else if even f then f else f + 1)"

fun py_round :: "pyfloat \<Rightarrow> nat \<Rightarrow> pyfloat" where
  "py_round (Fin r) nd = Fin (of_int (round_half_even (r * 10 ^ nd)) / 10 ^ nd)"
| "py_round x nd = x"

subsection \<open>numpy arrays\<close>

text \<open>A one-dimensional array is a list. \<^verbatim>\<open>np.mean\<close> of an empty array is NaN.\<close>

definition np_sum :: "pyfloat list \<Rightarrow> pyfloat" where
  "np_sum xs = foldl fadd (Fin 0) xs"

definition np_mean :: "pyfloat list \<Rightarrow> pyfloat" where
  "np_mean xs = (if xs = [] then NaN else fdiv (np_sum xs) (Fin (real (length xs))))"

definition np_std :: "pyfloat list \<Rightarrow> pyfloat" where
  "np_std xs = fsqrt (np_mean (map (\<lambda>x. fmul (fabs (fsub x (np_mean xs))) (fabs (fsub x (np_mean xs)))) xs))"

text \<open>\<^verbatim>\<open>xs[-n:]\<close>: the last \<open>n\<close> entries, and the whole array when \<open>n = 0\<close>
  (\<^verbatim>\<open>-0\<close> is \<^verbatim>\<open>0\<close>).\<close>

definition tail_slice :: "nat \<Rightarrow> 'a list \<Rightarrow> 'a list" where
  "tail_slice n xs = (if n = 0 then xs else drop (length xs - n) xs)"

datatype exn = IndexError | KeyError | ValueError | OverflowError | LibraryError string

text \<open>An elementwise binary operation broadcasts an array of length one and raises on
  any other mismatch of the lengths.\<close>

definition broadcast2 :: "('a \<Rightarrow> 'b \<Rightarrow> 'c) \<Rightarrow> 'a list \<Rightarrow> 'b list \<Rightarrow> exn + 'c list" where
  "broadcast2 f xs ys =
     (if length xs = length ys then Inr (map2 f xs ys)
      else if length xs = 1 then Inr (map (\<lambda>y. f (hd xs) y) ys)
      else if length ys = 1 then Inr (map (\<lambda>x. f x (hd ys)) xs)
      else Inl ValueError)"

text \<open>\<^verbatim>\<open>xs[mask]\<close> with a boolean mask: the mask must have the length of the array.\<close>

definition bool_index :: "'a list \<Rightarrow> bool list \<Rightarrow> exn + 'a list" where
  "bool_index xs bmask =
     (if length bmask \<noteq> length xs then Inl IndexError
      else Inr (map fst (filter snd (zip xs bmask))))"

text \<open>\<^verbatim>\<open>series.dropna()\<close>\<close>

definition dropna :: "pyfloat list \<Rightarrow> pyfloat list" where
  "dropna xs = filter (\<lambda>x. \<not> isnan x) xs"

section \<open>The fitted models and the registry\<close>

text \<open>
  A fitted model is an object of the forecasting library. The engine reads its residuals,
  fitted values, observations (\<^verbatim>\<open>model.model.endog\<close>, flattened), the two
  information criteria, and calls its forecast operation, which may raise.
\<close>

record forecast_result =
  predicted_mean :: "pyfloat list"
  conf_int :: "pyfloat \<Rightarrow> exn + (pyfloat \<times> pyfloat) list"

record fitted_model =
  resid :: "pyfloat list"
  fittedvalues :: "pyfloat list"
  endog :: "pyfloat list"
  aic :: pyfloat
  bic :: pyfloat
  get_forecast :: "int \<Rightarrow> exn + forecast_result"

text \<open>The per-district training statistics: a dictionary whose keys may be missing.\<close>

record district_stat =
  stat_order :: "(int \<times> int \<times> int) option"
  stat_data_points :: "int option"
  stat_mean :: "pyfloat option"
  stat_std :: "pyfloat option"

definition empty_stat :: district_stat where
  "empty_stat = \<lparr>stat_order = None, stat_data_points = None, stat_mean = None, stat_std = None\<rparr>"

text \<open>\<^verbatim>\<open>self.models\<close> is a dictionary in insertion order: an association list,
  read with \<open>map_of\<close>. \<^verbatim>\<open>self.district_stats\<close> is only looked up.\<close>

record registry =
  models :: "(string \<times> fitted_model) list"
  district_stats :: "string \<Rightarrow> district_stat option"

definition get_districts :: "registry \<Rightarrow> string list" where
  "get_districts self = map fst (models self)"

definition stats_get :: "registry \<Rightarrow> string \<Rightarrow> district_stat" where
  "stats_get self district = (case district_stats self district of None \<Rightarrow> empty_stat | Some s \<Rightarrow> s)"

definition dict_get :: "'a option \<Rightarrow> 'a \<Rightarrow> 'a" where
  "dict_get v dflt = (case v of None \<Rightarrow> dflt | Some x \<Rightarrow> x)"

section \<open>Accuracy metrics\<close>

record metrics =
  met_district :: string
  met_rmse :: pyfloat
  met_mae :: pyfloat
  met_mape :: "pyfloat option"
  met_aic :: pyfloat
  met_bic :: pyfloat
  met_ci_coverage_95 :: "pyfloat option"
  met_data_points :: int
  met_mean_enrollment :: pyfloat
  met_std_enrollment :: pyfloat

text \<open>Sequencing of steps that may raise: the first exception ends the block.\<close>

definition then_do :: "exn + 'a \<Rightarrow> ('a \<Rightarrow> exn + 'b) \<Rightarrow> exn + 'b" where
  "then_do r k = (case r of Inl e \<Rightarrow> Inl e | Inr x \<Rightarrow> k x)"

text \<open>The MAPE step of \<^verbatim>\<open>compute_metrics\<close> (division only where the actual
  value is non-zero).\<close>

definition compute_mape :: "pyfloat list \<Rightarrow> pyfloat list \<Rightarrow> exn + pyfloat option" where
  "compute_mape errors actual_clean =
     (let nonzero = map (\<lambda>a. fne a (Fin 0)) actual_clean
      in if length (filter id nonzero) > 0
         then then_do (bool_index errors nonzero) (\<lambda>errors_nz.
              then_do (bool_index actual_clean nonzero) (\<lambda>actual_nz.
              then_do (broadcast2 fdiv errors_nz actual_nz) (\<lambda>ratios.
              Inr (Some (fmul (np_mean (map fabs ratios)) (Fin 100))))))
         else Inr None)"

text \<open>The body of the \<^verbatim>\<open>try\<close> block of \<^verbatim>\<open>compute_metrics\<close>: \<open>Inl\<close> is a
  raised exception, \<open>Inr None\<close> the early \<^verbatim>\<open>return None\<close>.\<close>

definition compute_metrics_try :: "string \<Rightarrow> fitted_model \<Rightarrow> district_stat \<Rightarrow> exn + metrics option" where
  "compute_metrics_try district model stats_data =
     (let fitted_vals = fittedvalues model;
          actual_vals = endog model;
          n = min (length fitted_vals) (length actual_vals);
          fitted_vals = tail_slice n fitted_vals;
          actual_vals = tail_slice n actual_vals
      in then_do (broadcast2 (\<lambda>f a. \<not> (isnan f \<or> isnan a)) fitted_vals actual_vals) (\<lambda>valid_mask.
         then_do (bool_index fitted_vals valid_mask) (\<lambda>fitted_clean.
         then_do (bool_index actual_vals valid_mask) (\<lambda>actual_clean.
         if length fitted_clean = 0 then Inr None
         else
         then_do (broadcast2 fsub actual_clean fitted_clean) (\<lambda>errors.
         let rmse = fsqrt (np_mean (map (\<lambda>e. fmul e e) errors));
             mae = np_mean (map fabs errors)
         in then_do (compute_mape errors actual_clean) (\<lambda>mape.
         let ci_coverage = None
         in Inr (Some \<lparr>met_district = district,
                       met_rmse = rmse,
                       met_mae = mae,
                       met_mape = mape,
                       met_aic = aic model,
                       met_bic = bic model,
                       met_ci_coverage_95 = ci_coverage,
                       met_data_points = dict_get (stat_data_points stats_data) (int (length actual_clean)),
                       met_mean_enrollment = dict_get (stat_mean stats_data) (np_mean actual_clean),
                       met_std_enrollment = dict_get (stat_std stats_data) (np_std actual_clean)\<rparr>)))))))"

text \<open>\<^verbatim>\<open>compute_metrics\<close>: absent for an unknown district, and absent when the
  body raises (the exception is logged and swallowed).\<close>

definition compute_metrics :: "registry \<Rightarrow> string \<Rightarrow> int \<Rightarrow> metrics option" where
  "compute_metrics self district forecast_periods =
     (case map_of (models self) district of
        None \<Rightarrow> None
      | Some model \<Rightarrow>
          (case compute_metrics_try district model (stats_get self district) of
             Inl e \<Rightarrow> None
           | Inr r \<Rightarrow> r))"

section \<open>The statistics, sorting and calendar libraries\<close>

text \<open>
  The statistical tests (statsmodels, scipy), the series statistics and the sort of a
  data frame (pandas) and the calendar are libraries outside the repository: they are
  parameters of the model. A call that can raise returns a sum.
\<close>

record adf_result =
  adf_stat :: pyfloat
  adf_p :: pyfloat
  adf_crit_1pct :: pyfloat
  adf_crit_5pct :: pyfloat

record summary_row =
  row_district :: string
  row_rmse :: pyfloat
  row_mae :: pyfloat
  row_mape :: "pyfloat option"
  row_aic :: pyfloat
  row_bic :: pyfloat
  row_adf_pvalue :: pyfloat
  row_ljung_box_pvalue :: pyfloat
  row_ci_coverage :: "pyfloat option"
  row_data_points :: int
  row_order :: "int \<times> int \<times> int"

record library =
  adfuller :: "pyfloat list \<Rightarrow> exn + adf_result"
  acorr_ljungbox :: "pyfloat list \<Rightarrow> nat list \<Rightarrow> exn + pyfloat list"
  shapiro :: "pyfloat list \<Rightarrow> exn + pyfloat \<times> pyfloat"
  series_mean :: "pyfloat list \<Rightarrow> pyfloat"
  series_std :: "pyfloat list \<Rightarrow> pyfloat"
  series_skew :: "pyfloat list \<Rightarrow> pyfloat"
  series_kurtosis :: "pyfloat list \<Rightarrow> pyfloat"
  acf :: "pyfloat list \<Rightarrow> int \<Rightarrow> exn + pyfloat list"
  pacf :: "pyfloat list \<Rightarrow> int \<Rightarrow> exn + pyfloat list"
  sort_values :: "(summary_row \<Rightarrow> pyfloat) \<Rightarrow> summary_row list \<Rightarrow> summary_row list"
  hist_date_range :: "nat \<Rightarrow> string list"
  forecast_date_range :: "string \<Rightarrow> int \<Rightarrow> exn + string list"
  month_offset :: "nat \<Rightarrow> exn + string"

text \<open>\<^verbatim>\<open>xs[i]\<close> and \<^verbatim>\<open>series.iloc[i]\<close> for \<open>i \<ge> 0\<close>, and \<^verbatim>\<open>xs[-1]\<close>.\<close>

definition iloc :: "'a list \<Rightarrow> nat \<Rightarrow> exn + 'a" where
  "iloc xs i = (if i < length xs then Inr (xs ! i) else Inl IndexError)"

definition last_item :: "'a list \<Rightarrow> exn + 'a" where
  "last_item xs = (if xs = [] then Inl IndexError else Inr (last xs))"

section \<open>Diagnostic tests\<close>

record diagnostics =
  diag_district :: string
  adf_statistic :: pyfloat
  adf_pvalue :: pyfloat
  adf_critical_1pct :: pyfloat
  adf_critical_5pct :: pyfloat
  is_stationary :: bool
  ljung_box_pvalue :: pyfloat
  no_autocorrelation :: bool
  shapiro_pvalue :: "pyfloat option"
  residual_mean :: pyfloat
  residual_std :: pyfloat
  residual_skewness :: "pyfloat option"
  residual_kurtosis :: "pyfloat option"
  model_order :: "int \<times> int \<times> int"
  diag_aic :: pyfloat
  diag_bic :: pyfloat

text \<open>The Shapiro-Wilk step: run only for more than 3 and at most 5000 cleaned residuals.\<close>

definition shapiro_step :: "library \<Rightarrow> pyfloat list \<Rightarrow> exn + (pyfloat option \<times> pyfloat option)" where
  "shapiro_step lib resid_clean =
     (if length resid_clean \<le> 5000 \<and> length resid_clean > 3
      then then_do (shapiro lib resid_clean) (\<lambda>(shapiro_stat, shapiro_pvalue).
           Inr (Some shapiro_stat, Some shapiro_pvalue))
      else Inr (None, None))"

text \<open>The body of the \<^verbatim>\<open>try\<close> block of \<^verbatim>\<open>compute_diagnostics\<close>. The field
  \<^verbatim>\<open>shapiro_pvalue\<close> is \<^verbatim>\<open>float(shapiro_pvalue) if shapiro_pvalue else None\<close>:
  the condition is the truthiness of the value. The residuals are a pandas series, which
  has \<^verbatim>\<open>skew\<close> and \<^verbatim>\<open>kurtosis\<close>, so both of these fields are filled.\<close>

definition compute_diagnostics_try :: "library \<Rightarrow> string \<Rightarrow> fitted_model \<Rightarrow> district_stat \<Rightarrow> exn + diagnostics" where
  "compute_diagnostics_try lib district model district_stat =
     (let residuals = resid model
      in then_do (adfuller lib (dropna residuals)) (\<lambda>adf_result.
         then_do (acorr_ljungbox lib (dropna residuals) [10]) (\<lambda>lb_result.
         then_do (iloc lb_result 0) (\<lambda>lb_pvalue.
         let resid_clean = dropna residuals
         in then_do (shapiro_step lib resid_clean) (\<lambda>(shapiro_stat, shapiro_pvalue).
         let resid_mean = series_mean lib residuals;
             resid_std = series_std lib residuals;
             resid_skew = Some (series_skew lib residuals);
             resid_kurt = Some (series_kurtosis lib residuals)
         in Inr \<lparr>diag_district = district,
                 adf_statistic = adf_stat adf_result,
                 adf_pvalue = adf_p adf_result,
                 adf_critical_1pct = adf_crit_1pct adf_result,
                 adf_critical_5pct = adf_crit_5pct adf_result,
                 is_stationary = flt (adf_p adf_result) (Fin 0.05),
                 ljung_box_pvalue = lb_pvalue,
                 no_autocorrelation = fgt lb_pvalue (Fin 0.05),
                 shapiro_pvalue = (if opt_truthy shapiro_pvalue then shapiro_pvalue else None),
                 residual_mean = resid_mean,
                 residual_std = resid_std,
                 residual_skewness = resid_skew,
                 residual_kurtosis = resid_kurt,
                 model_order = dict_get (stat_order district_stat) (1, 1, 1),
                 diag_aic = aic model,
                 diag_bic = bic model\<rparr>)))))"

definition compute_diagnostics :: "library \<Rightarrow> registry \<Rightarrow> string \<Rightarrow> diagnostics option" where
  "compute_diagnostics lib self district =
     (case map_of (models self) district of
        None \<Rightarrow> None
      | Some model \<Rightarrow>
          (case compute_diagnostics_try lib district model (stats_get self district) of
             Inl e \<Rightarrow> None
           | Inr r \<Rightarrow> Some r))"

section \<open>Plots\<close>

text \<open>A figure is the list of its traces, with the data each one shows, and its title.
  Colours, layout and the text of the annotation are left out.\<close>

datatype trace =
    Scatter "string list" "pyfloat list" string
  | Band "string list" "pyfloat list" int
  | Histogram "pyfloat list" string
  | Bar "pyfloat list" string
  | HLine pyfloat

record figure =
  fig_traces :: "trace list"
  fig_title :: string
  fig_height :: nat

text \<open>\<^verbatim>\<open>int(confidence_level*100)\<close> truncates towards zero, and raises on NaN
  and on an infinity.\<close>

fun int_of_float :: "pyfloat \<Rightarrow> exn + int" where
  "int_of_float (Fin c) = Inr (if c < 0 then \<lceil>c\<rceil> else \<lfloor>c\<rfloor>)"
| "int_of_float NaN = Inl ValueError"
| "int_of_float x = Inl OverflowError"

definition percent_of :: "pyfloat \<Rightarrow> exn + int" where
  "percent_of c = int_of_float (fmul c (Fin 100))"

definition generate_forecast_plot_try ::
    "library \<Rightarrow> string \<Rightarrow> fitted_model \<Rightarrow> int \<Rightarrow> pyfloat \<Rightarrow> bool \<Rightarrow> exn + figure" where
  "generate_forecast_plot_try lib district model forecast_periods confidence_level show_fitted =
     (let actual = endog model;
          fitted = fittedvalues model;
          n_actual = length actual;
          hist_dates = hist_date_range lib n_actual
      in then_do (get_forecast model forecast_periods) (\<lambda>forecast_result.
         let predictions = predicted_mean forecast_result
         in then_do (conf_int forecast_result (fsub (Fin 1) confidence_level)) (\<lambda>ci.
         then_do (last_item hist_dates) (\<lambda>last_date.
         then_do (forecast_date_range lib last_date forecast_periods) (\<lambda>forecast_dates.
         then_do (percent_of confidence_level) (\<lambda>pct.
         Inr \<lparr>fig_traces =
                 [Scatter hist_dates actual ''Historical (Actual)'']
                 @ (if show_fitted then [Scatter hist_dates fitted ''Fitted Values''] else [])
                 @ [Scatter forecast_dates predictions ''Forecast'',
                    Band (forecast_dates @ rev forecast_dates)
                         (map snd ci @ rev (map fst ci)) pct],
               fig_title = ''Enrollment Forecast: '' @ district,
               fig_height = 500\<rparr>))))))"

definition generate_forecast_plot ::
    "library \<Rightarrow> registry \<Rightarrow> string \<Rightarrow> int \<Rightarrow> pyfloat \<Rightarrow> bool \<Rightarrow> figure option" where
  "generate_forecast_plot lib self district forecast_periods confidence_level show_fitted =
     (case map_of (models self) district of
        None \<Rightarrow> None
      | Some model \<Rightarrow>
          (case generate_forecast_plot_try lib district model forecast_periods
                  confidence_level show_fitted of
             Inl e \<Rightarrow> None
           | Inr fig \<Rightarrow> Some fig))"

definition generate_residual_plots_try :: "library \<Rightarrow> string \<Rightarrow> fitted_model \<Rightarrow> exn + figure" where
  "generate_residual_plots_try lib district model =
     (let residuals = dropna (resid model);
          max_lags = min 20 (int (length residuals) div 2 - 1);
          max_lags = (if max_lags < 2 then 2 else max_lags)
      in then_do (acf lib residuals max_lags) (\<lambda>acf_values.
         let n = length residuals;
             conf_bound = fdiv (Fin 1.96) (fsqrt (Fin (real n)))
         in then_do (pacf lib residuals max_lags) (\<lambda>pacf_values.
         Inr \<lparr>fig_traces =
                 [Scatter [] residuals ''Residuals'', HLine (Fin 0),
                  Histogram residuals ''Distribution'',
                  Bar acf_values ''ACF'', HLine conf_bound, HLine (fsub (Fin 0) conf_bound),
                  Bar pacf_values ''PACF'', HLine conf_bound, HLine (fsub (Fin 0) conf_bound)],
               fig_title = ''Residual Diagnostics: '' @ district,
               fig_height = 600\<rparr>)))"

definition generate_residual_plots :: "library \<Rightarrow> registry \<Rightarrow> string \<Rightarrow> figure option" where
  "generate_residual_plots lib self district =
     (case map_of (models self) district of
        None \<Rightarrow> None
      | Some model \<Rightarrow>
          (case generate_residual_plots_try lib district model of
             Inl e \<Rightarrow> None
           | Inr fig \<Rightarrow> Some fig))"

section \<open>The summary table\<close>

text \<open>The row of one district. The two optional columns are filled when the value is
  truthy: \<^verbatim>\<open>round(metrics["mape"], 1) if metrics["mape"] else None\<close>. The order is
  kept as the tuple (the source prints it with \<^verbatim>\<open>str\<close>).\<close>

definition summary_row_of :: "string \<Rightarrow> diagnostics \<Rightarrow> metrics \<Rightarrow> summary_row" where
  "summary_row_of district diags mets =
     \<lparr>row_district = district,
      row_rmse = py_round (met_rmse mets) 1,
      row_mae = py_round (met_mae mets) 1,
      row_mape = (if opt_truthy (met_mape mets)
                  then map_option (\<lambda>v. py_round v 1) (met_mape mets) else None),
      row_aic = py_round (met_aic mets) 1,
      row_bic = py_round (met_bic mets) 1,
      row_adf_pvalue = py_round (adf_pvalue diags) 4,
      row_ljung_box_pvalue = py_round (ljung_box_pvalue diags) 4,
      row_ci_coverage = (if opt_truthy (met_ci_coverage_95 mets)
                         then map_option (\<lambda>v. py_round v 1) (met_ci_coverage_95 mets) else None),
      row_data_points = met_data_points mets,
      row_order = model_order diags\<rparr>"

text \<open>The loop over the districts, with the list \<^verbatim>\<open>rows\<close> as its state. A result
  dictionary is never empty, so \<^verbatim>\<open>if diagnostics and metrics\<close> tests presence.\<close>

fun summary_loop :: "library \<Rightarrow> registry \<Rightarrow> string list \<Rightarrow> summary_row list \<Rightarrow> summary_row list" where
  "summary_loop lib self [] rows = rows"
| "summary_loop lib self (district # ds) rows =
     summary_loop lib self ds
       (case compute_diagnostics lib self district of
          None \<Rightarrow> rows
        | Some diags \<Rightarrow>
            (case compute_metrics self district 6 of
               None \<Rightarrow> rows
             | Some mets \<Rightarrow> rows @ [summary_row_of district diags mets]))"

text \<open>The table is sorted only when it has a row (a frame with a row has the column
  \<^verbatim>\<open>RMSE\<close>).\<close>

definition generate_summary_table :: "library \<Rightarrow> registry \<Rightarrow> summary_row list" where
  "generate_summary_table lib self =
     (let rows = summary_loop lib self (get_districts self) []
      in if length rows > 0 then sort_values lib row_rmse rows else rows)"

section \<open>The forecast export\<close>

record forecast_row =
  fr_district :: string
  fr_date :: string
  fr_period :: int
  fr_forecast :: pyfloat
  fr_lower_ci_95 :: pyfloat
  fr_upper_ci_95 :: pyfloat

text \<open>One pass of the inner loop: the date of step \<open>i + 1\<close>, then the row.\<close>

definition forecast_row_at ::
    "library \<Rightarrow> string \<Rightarrow> pyfloat list \<Rightarrow> (pyfloat \<times> pyfloat) list \<Rightarrow> nat \<Rightarrow> exn + forecast_row" where
  "forecast_row_at lib district predictions ci i =
     then_do (month_offset lib (i + 1)) (\<lambda>forecast_date.
     then_do (iloc predictions i) (\<lambda>p.
     then_do (iloc ci i) (\<lambda>(lo, hi).
     Inr \<lparr>fr_district = district,
          fr_date = forecast_date,
          fr_period = int i + 1,
          fr_forecast = py_round p 0,
          fr_lower_ci_95 = py_round lo 0,
          fr_upper_ci_95 = py_round hi 0\<rparr>)))"

text \<open>The inner loop appends to the shared list \<^verbatim>\<open>rows\<close>: the result is the list
  as the loop leaves it, and the exception that ended the loop, if one did.\<close>

fun forecast_loop ::
    "library \<Rightarrow> string \<Rightarrow> pyfloat list \<Rightarrow> (pyfloat \<times> pyfloat) list \<Rightarrow> nat list
       \<Rightarrow> forecast_row list \<Rightarrow> forecast_row list \<times> exn option" where
  "forecast_loop lib district predictions ci [] rows = (rows, None)"
| "forecast_loop lib district predictions ci (i # steps) rows =
     (case forecast_row_at lib district predictions ci i of
        Inl e \<Rightarrow> (rows, Some e)
      | Inr r \<Rightarrow> forecast_loop lib district predictions ci steps (rows @ [r]))"

text \<open>The \<^verbatim>\<open>try\<close> block of one district in \<^verbatim>\<open>export_forecasts_csv\<close>.\<close>

definition export_district_try ::
    "library \<Rightarrow> string \<Rightarrow> fitted_model \<Rightarrow> int \<Rightarrow> forecast_row list \<Rightarrow> forecast_row list \<times> exn option" where
  "export_district_try lib district model forecast_periods rows =
     (case get_forecast model forecast_periods of
        Inl e \<Rightarrow> (rows, Some e)
      | Inr forecast_result \<Rightarrow>
          (let predictions = predicted_mean forecast_result
           in case conf_int forecast_result (Fin 0.05) of
                Inl e \<Rightarrow> (rows, Some e)
              | Inr ci \<Rightarrow>
                  forecast_loop lib district predictions ci [0..<nat forecast_periods] rows))"

text \<open>The loop over the districts. \<^verbatim>\<open>self.models[district]\<close> stands outside the
  \<^verbatim>\<open>try\<close>; the \<^verbatim>\<open>except\<close> logs a warning and goes on with the rows as they are.\<close>

fun export_loop ::
    "library \<Rightarrow> registry \<Rightarrow> int \<Rightarrow> string list \<Rightarrow> forecast_row list \<Rightarrow> exn + forecast_row list" where
  "export_loop lib self forecast_periods [] rows = Inr rows"
| "export_loop lib self forecast_periods (district # ds) rows =
     (case map_of (models self) district of
        None \<Rightarrow> Inl KeyError
      | Some model \<Rightarrow>
          export_loop lib self forecast_periods ds
            (fst (export_district_try lib district model forecast_periods rows)))"

text \<open>\<^verbatim>\<open>export_forecasts_csv\<close>: the rows written to \<^verbatim>\<open>forecasts.csv\<close>.\<close>

definition export_forecasts_csv :: "library \<Rightarrow> registry \<Rightarrow> int \<Rightarrow> exn + forecast_row list" where
  "export_forecasts_csv lib self forecast_periods =
     export_loop lib self forecast_periods (get_districts self) []"

section \<open>The specification's side\<close>

text \<open>
  The aligned pairs as the specification words them: the most recent
  \<open>n = min (len fitted) (len actual)\<close> points of each sequence, position by position,
  without the positions where either side is missing (NaN). A pair is (fitted, actual).
\<close>

definition last_n :: "nat \<Rightarrow> 'a list \<Rightarrow> 'a list" where
  "last_n n xs = drop (length xs - n) xs"

definition aligned_pairs :: "fitted_model \<Rightarrow> (pyfloat \<times> pyfloat) list" where
  "aligned_pairs model =
     (let n = min (length (fittedvalues model)) (length (endog model))
      in filter (\<lambda>(f, a). \<not> isnan f \<and> \<not> isnan a)
           (zip (last_n n (fittedvalues model)) (last_n n (endog model))))"

text \<open>With errors = actual - fitted: RMSE is the square root of the mean squared error,
  MAE the mean absolute error, and MAPE the mean of |error/actual| times 100 over the
  pairs with a non-zero actual value, absent when there is none.\<close>

definition rmse_of :: "(pyfloat \<times> pyfloat) list \<Rightarrow> pyfloat" where
  "rmse_of ps = fsqrt (np_mean (map (\<lambda>(f, a). fmul (fsub a f) (fsub a f)) ps))"

definition mae_of :: "(pyfloat \<times> pyfloat) list \<Rightarrow> pyfloat" where
  "mae_of ps = np_mean (map (\<lambda>(f, a). fabs (fsub a f)) ps)"

definition mape_of :: "(pyfloat \<times> pyfloat) list \<Rightarrow> pyfloat option" where
  "mape_of ps =
     (let nz = filter (\<lambda>(f, a). a \<noteq> Fin 0) ps
      in if nz = [] then None
         else Some (fmul (np_mean (map (\<lambda>(f, a). fabs (fdiv (fsub a f) a)) nz)) (Fin 100)))"

definition metrics_of_pairs :: "string \<Rightarrow> fitted_model \<Rightarrow> district_stat \<Rightarrow> (pyfloat \<times> pyfloat) list \<Rightarrow> metrics" where
  "metrics_of_pairs district model stats_data ps =
     \<lparr>met_district = district,
      met_rmse = rmse_of ps,
      met_mae = mae_of ps,
      met_mape = mape_of ps,
      met_aic = aic model,
      met_bic = bic model,
      met_ci_coverage_95 = None,
      met_data_points = dict_get (stat_data_points stats_data) (int (length ps)),
      met_mean_enrollment = dict_get (stat_mean stats_data) (np_mean (map snd ps)),
      met_std_enrollment = dict_get (stat_std stats_data) (np_std (map snd ps))\<rparr>"

text \<open>A pair with the same infinity on both sides: its error \<open>inf - inf\<close> is NaN.\<close>

definition same_infinity :: "pyfloat \<times> pyfloat \<Rightarrow> bool" where
  "same_infinity p = (fst p = snd p \<and> (fst p = PInf \<or> fst p = NInf))"


text \<open>What the data-frame library promises of \<^verbatim>\<open>sort_values\<close> with its default
  algorithm: the rows come back rearranged in ascending order of the key, NaN last.
  It does not promise to keep the order of rows with equal keys.\<close>

definition key_le :: "pyfloat \<Rightarrow> pyfloat \<Rightarrow> bool" where
  "key_le a b = (isnan b \<or> (\<not> isnan a \<and> \<not> flt b a))"

definition sorts_by_key :: "library \<Rightarrow> bool" where
  "sorts_by_key lib =
     (\<forall>key rows. mset (sort_values lib key rows) = mset rows \<and>
                 sorted_wrt (\<lambda>r s. key_le (key r) (key s)) (sort_values lib key rows))"

text \<open>A district is in the summary when both computations return a result.\<close>

definition both_succeed :: "library \<Rightarrow> registry \<Rightarrow> string \<Rightarrow> bool" where
  "both_succeed lib self district =
     (compute_diagnostics lib self district \<noteq> None \<and> compute_metrics self district 6 \<noteq> None)"

text \<open>The rows one district contributes to the summary: one when both computations
  return a result, none otherwise.\<close>

definition district_rows :: "library \<Rightarrow> registry \<Rightarrow> string \<Rightarrow> summary_row list" where
  "district_rows lib self district =
     (case compute_diagnostics lib self district of
        None \<Rightarrow> []
      | Some diags \<Rightarrow>
          (case compute_metrics self district 6 of
             None \<Rightarrow> []
           | Some mets \<Rightarrow> [summary_row_of district diags mets]))"

text \<open>The forecast export, district by district: the rows the \<^verbatim>\<open>try\<close> block of a
  district leaves in the file, whether the block raised, and the condition that no
  exception can arise while the rows of a district are being built (the forecast and the
  intervals, when they are returned, cover the horizon, and the calendar yields every
  date of the horizon).\<close>

definition region_rows :: "library \<Rightarrow> registry \<Rightarrow> int \<Rightarrow> string \<Rightarrow> forecast_row list" where
  "region_rows lib self forecast_periods district =
     (case map_of (models self) district of
        None \<Rightarrow> []
      | Some model \<Rightarrow> fst (export_district_try lib district model forecast_periods []))"

definition region_raises :: "library \<Rightarrow> registry \<Rightarrow> int \<Rightarrow> string \<Rightarrow> bool" where
  "region_raises lib self forecast_periods district =
     (case map_of (models self) district of
        None \<Rightarrow> True
      | Some model \<Rightarrow> snd (export_district_try lib district model forecast_periods []) \<noteq> None)"

definition rows_never_fail :: "library \<Rightarrow> registry \<Rightarrow> int \<Rightarrow> string \<Rightarrow> bool" where
  "rows_never_fail lib self forecast_periods district =
     (case map_of (models self) district of
        None \<Rightarrow> False
      | Some model \<Rightarrow>
          (case get_forecast model forecast_periods of
             Inl e \<Rightarrow> True
           | Inr forecast_result \<Rightarrow>
               (case conf_int forecast_result (Fin 0.05) of
                  Inl e \<Rightarrow> True
                | Inr ci \<Rightarrow>
                    nat forecast_periods \<le> length (predicted_mean forecast_result) \<and>
                    nat forecast_periods \<le> length ci \<and>
                    list_all (\<lambda>i. \<exists>date. month_offset lib (i + 1) = Inr date)
                      [0..<nat forecast_periods])))"

section \<open>The sort of a data frame, as pandas and numpy implement it\<close>



































section \<open>Sample libraries, models and registries\<close>

text \<open>An insertion sort that meets the promise of \<^verbatim>\<open>sort_values\<close>: it puts a row
  before the rows of equal key, from the right, and so keeps the order of equal keys.\<close>

fun insert_before :: "('a \<Rightarrow> pyfloat) \<Rightarrow> 'a \<Rightarrow> 'a list \<Rightarrow> 'a list" where
  "insert_before key x [] = [x]"
| "insert_before key x (y # ys) =
     (if key_le (key x) (key y) then x # y # ys else y # insert_before key x ys)"

definition stable_sort :: "('a \<Rightarrow> pyfloat) \<Rightarrow> 'a list \<Rightarrow> 'a list" where
  "stable_sort key rows = foldr (insert_before key) rows []"

definition sample_adf :: adf_result where
  "sample_adf = \<lparr>adf_stat = Fin (- 4), adf_p = Fin 0.01,
                 adf_crit_1pct = Fin (- 3.5), adf_crit_5pct = Fin (- 2.9)\<rparr>"

definition sample_library :: library where
  "sample_library =
     \<lparr>adfuller = (\<lambda>xs. if length xs < 4 then Inl (LibraryError ''sample too short'')
                        else Inr sample_adf),
      acorr_ljungbox = (\<lambda>xs lags. Inr (map (\<lambda>l. Fin 0.5) lags)),
      shapiro = (\<lambda>xs. Inr (Fin 0.9, Fin 0.3)),
      series_mean = (\<lambda>xs. np_mean (dropna xs)),
      series_std = (\<lambda>xs. np_std (dropna xs)),
      series_skew = (\<lambda>xs. Fin 0),
      series_kurtosis = (\<lambda>xs. Fin 0),
      acf = (\<lambda>xs nlags. Inr [Fin 1]),
      pacf = (\<lambda>xs nlags. Inr [Fin 1]),
      sort_values = stable_sort,
      hist_date_range = (\<lambda>n. replicate n ''2026-01-31''),
      forecast_date_range = (\<lambda>start n. if n < 0 then Inl ValueError
                                         else Inr (replicate (nat n) ''2026-02-28'')),
      month_offset = (\<lambda>k. Inr ''2026-02-03'')\<rparr>"


definition boundary_library :: library where
  "boundary_library =
     sample_library\<lparr>adfuller := (\<lambda>xs. Inr (sample_adf\<lparr>adf_p := Fin 0.05\<rparr>)),
                    acorr_ljungbox := (\<lambda>xs lags. Inr (map (\<lambda>l. Fin 0.05) lags))\<rparr>"

definition bounded_calendar_library :: library where
  "bounded_calendar_library =
     sample_library\<lparr>month_offset := (\<lambda>k. if 2 < k then Inl (LibraryError ''out of bounds'')
                                           else Inr ''2262-03-03'')\<rparr>"

definition sample_forecast :: "int \<Rightarrow> exn + forecast_result" where
  "sample_forecast steps =
     (if steps < 1 then Inl ValueError
      else Inr \<lparr>predicted_mean = replicate (nat steps) (Fin 10),
                conf_int = (\<lambda>alpha. Inr (replicate (nat steps) (Fin 8, Fin 12)))\<rparr>)"

definition one_step_forecast :: "int \<Rightarrow> exn + forecast_result" where
  "one_step_forecast steps =
     Inr \<lparr>predicted_mean = [Fin 10], conf_int = (\<lambda>alpha. Inr [(Fin 8, Fin 12)])\<rparr>"

definition model_exact :: fitted_model where
  "model_exact =
     \<lparr>resid = [Fin 0, Fin 0, Fin 0, Fin 0],
      fittedvalues = [Fin 1, Fin 2, Fin 3, Fin 4],
      endog = [Fin 1, Fin 2, Fin 3, Fin 4],
      aic = Fin 10, bic = Fin 12, get_forecast = sample_forecast\<rparr>"

definition model_off :: fitted_model where
  "model_off =
     \<lparr>resid = [NaN, Fin 2, Fin 2, Fin 1, Fin 0],
      fittedvalues = [NaN, Fin 1, Fin 3],
      endog = [Fin 5, Fin 7, Fin 3, Fin 5],
      aic = Fin 20, bic = Fin 22, get_forecast = sample_forecast\<rparr>"

definition model_few :: fitted_model where
  "model_few =
     \<lparr>resid = [Fin 1, Fin 2, Fin 3],
      fittedvalues = [Fin 1, Fin 2, Fin 3],
      endog = [Fin 2, Fin 4, Fin 6],
      aic = Fin 5, bic = Fin 6, get_forecast = (\<lambda>steps. Inl (LibraryError ''degenerate''))\<rparr>"

definition model_one_step :: fitted_model where
  "model_one_step = model_exact\<lparr>get_forecast := one_step_forecast\<rparr>"

definition sample_registry :: registry where
  "sample_registry =
     \<lparr>models = [(''A'', model_off), (''B'', model_few), (''C'', model_exact)],
      district_stats = (\<lambda>d. None)\<rparr>"

definition tied_registry :: registry where
  "tied_registry =
     \<lparr>models = [(''A'', model_exact), (''B'', model_exact)], district_stats = (\<lambda>d. None)\<rparr>"

definition short_forecast_registry :: registry where
  "short_forecast_registry =
     \<lparr>models = [(''A'', model_one_step), (''B'', model_exact)], district_stats = (\<lambda>d. None)\<rparr>"



text \<open>Models with an infinite observation: against a finite fitted value, and against
  an infinite one.\<close>

definition model_inf_actual :: fitted_model where
  "model_inf_actual = model_exact\<lparr>fittedvalues := [Fin 1], endog := [PInf]\<rparr>"

definition model_inf_both :: fitted_model where
  "model_inf_both = model_exact\<lparr>fittedvalues := [PInf], endog := [PInf]\<rparr>"

definition infinite_registry :: registry where
  "infinite_registry =
     \<lparr>models = [(''A'', model_inf_actual), (''B'', model_inf_both)],
      district_stats = (\<lambda>d. None)\<rparr>"

definition failing_registry :: registry where
  "failing_registry = \<lparr>models = [(''B'', model_few)], district_stats = (\<lambda>d. None)\<rparr>"

section \<open>Floats: signs and NaN\<close>

lemma float_max_large: "10 ^ 12 \<le> float_max"
proof -
  have "(2::real) ^ 971 * 2 \<le> 2 ^ 1024" by simp
  moreover have "(10::real) ^ 12 \<le> 2 ^ 971"
  proof -
    have "(10::real) ^ 12 \<le> 2 ^ 40" by simp
    also have "\<dots> \<le> 2 ^ 971" by (rule power_increasing) simp_all
    finally show ?thesis .
  qed
  ultimately show ?thesis by (simp add: float_max_def)
qed

lemma to_float_small: "\<bar>r\<bar> \<le> 10 ^ 12 \<Longrightarrow> to_float r = Fin r"
  using float_max_large by (auto simp: to_float_def)

lemma to_float_not_NaN [simp]: "to_float r \<noteq> NaN"
  by (simp add: to_float_def)

lemma to_float_fge0: "0 \<le> r \<Longrightarrow> fge0 (to_float r)"
  using float_max_large by (auto simp: to_float_def)

lemma fge0_not_NaN: "fge0 x \<Longrightarrow> x \<noteq> NaN"
  by (cases x) simp_all

lemma fadd_fge0: "fge0 a \<Longrightarrow> fge0 b \<Longrightarrow> fge0 (fadd a b)"
  by (cases a; cases b) (simp_all add: to_float_fge0)

lemma fadd_NaN_right [simp]: "fadd a NaN = NaN"
  by (cases a) simp_all

lemma foldl_fadd_NaN [simp]: "foldl fadd NaN xs = NaN"
  by (induction xs) simp_all

lemma foldl_fadd_has_NaN: "NaN \<in> set xs \<Longrightarrow> foldl fadd acc xs = NaN"
  by (induction xs arbitrary: acc) auto

lemma foldl_fadd_fge0:
  "fge0 acc \<Longrightarrow> \<forall>x \<in> set xs. fge0 x \<Longrightarrow> fge0 (foldl fadd acc xs)"
  by (induction xs arbitrary: acc) (simp_all add: fadd_fge0)

lemma fdiv_NaN_left [simp]: "fdiv NaN b = NaN"
  by simp

lemma fdiv_fge0_count: "fge0 x \<Longrightarrow> 0 < n \<Longrightarrow> fge0 (fdiv x (Fin (real n)))"
  by (cases x) (simp_all add: to_float_fge0)

lemma np_mean_has_NaN: "NaN \<in> set xs \<Longrightarrow> np_mean xs = NaN"
  by (auto simp: np_mean_def np_sum_def foldl_fadd_has_NaN)

lemma np_mean_fge0: "xs \<noteq> [] \<Longrightarrow> \<forall>x \<in> set xs. fge0 x \<Longrightarrow> fge0 (np_mean xs)"
  by (simp add: np_mean_def np_sum_def foldl_fadd_fge0 fdiv_fge0_count)

lemma fsqrt_fge0: "fge0 x \<Longrightarrow> fge0 (fsqrt x)"
  by (cases x) simp_all


lemma fabs_fge0: "x \<noteq> NaN \<Longrightarrow> fge0 (fabs x)"
  by (cases x) simp_all

lemma fabs_NaN_iff [simp]: "fabs x = NaN \<longleftrightarrow> x = NaN"
  by (cases x) simp_all

lemma fmul_self_fge0: "x \<noteq> NaN \<Longrightarrow> fge0 (fmul x x)"
  by (cases x) (simp_all add: to_float_fge0)

lemma fmul_self_NaN_iff [simp]: "fmul x x = NaN \<longleftrightarrow> x = NaN"
  by (cases x) simp_all

lemma fmul_hundred_fge0: "fge0 x \<Longrightarrow> fge0 (fmul x (Fin 100))"
  by (cases x) (simp_all add: to_float_fge0)

lemma fsub_NaN_iff:
  "\<not> isnan f \<Longrightarrow> \<not> isnan a \<Longrightarrow> fsub a f = NaN \<longleftrightarrow> same_infinity (f, a)"
  by (cases f; cases a) (auto simp: fsub_def same_infinity_def)

lemma fdiv_error_NaN_iff:
  "\<not> isnan f \<Longrightarrow> \<not> isnan a \<Longrightarrow> a \<noteq> Fin 0 \<Longrightarrow>
   fdiv (fsub a f) a = NaN \<longleftrightarrow> \<not> is_finite a"
  by (cases f; cases a) (auto simp: fsub_def to_float_def)

section \<open>Accuracy metrics: the code computes what the specification words\<close>

subsection \<open>The cleaned arrays are the aligned pairs\<close>

lemma broadcast2_same: "length xs = length ys \<Longrightarrow> broadcast2 f xs ys = Inr (map2 f xs ys)"
  by (simp add: broadcast2_def)

lemma bool_index_same:
  "length m = length xs \<Longrightarrow> bool_index xs m = Inr (map fst (filter snd (zip xs m)))"
  by (simp add: bool_index_def)

lemma clean_fitted:
  "length fs = length as \<Longrightarrow>
   map fst (filter snd (zip fs (map2 (\<lambda>f a. \<not> isnan f \<and> \<not> isnan a) fs as)))
     = map fst (filter (\<lambda>(f, a). \<not> isnan f \<and> \<not> isnan a) (zip fs as))"
  by (induction fs as rule: list_induct2) simp_all

lemma clean_actual:
  "length fs = length as \<Longrightarrow>
   map fst (filter snd (zip as (map2 (\<lambda>f a. \<not> isnan f \<and> \<not> isnan a) fs as)))
     = map snd (filter (\<lambda>(f, a). \<not> isnan f \<and> \<not> isnan a) (zip fs as))"
  by (induction fs as rule: list_induct2) simp_all

lemma errors_of_pairs:
  "map2 fsub (map snd ps) (map fst ps) = map (\<lambda>(f, a). fsub a f) ps"
  by (induction ps) auto

lemma fne_zero: "\<not> isnan a \<Longrightarrow> fne a (Fin 0) \<longleftrightarrow> a \<noteq> Fin 0"
  by (simp add: fne_def)

lemma nonzero_select_errors:
  "\<forall>p \<in> set ps. \<not> isnan (snd p) \<Longrightarrow>
   map fst (filter snd (zip (map (\<lambda>(f, a). fsub a f) ps)
                            (map (\<lambda>a. fne a (Fin 0)) (map snd ps))))
     = map (\<lambda>(f, a). fsub a f) (filter (\<lambda>(f, a). a \<noteq> Fin 0) ps)"
  by (induction ps) (auto simp: fne_zero)

lemma nonzero_select_actual:
  "\<forall>p \<in> set ps. \<not> isnan (snd p) \<Longrightarrow>
   map fst (filter snd (zip (map snd ps) (map (\<lambda>a. fne a (Fin 0)) (map snd ps))))
     = map snd (filter (\<lambda>(f, a). a \<noteq> Fin 0) ps)"
  by (induction ps) (auto simp: fne_zero)

lemma nonzero_count:
  "\<forall>p \<in> set ps. \<not> isnan (snd p) \<Longrightarrow>
   filter id (map (\<lambda>a. fne a (Fin 0)) (map snd ps)) = []
     \<longleftrightarrow> filter (\<lambda>(f, a). a \<noteq> Fin 0) ps = []"
  by (induction ps) (auto simp: fne_zero)

lemma ratios_of_pairs:
  "map fabs (map2 fdiv (map (\<lambda>(f, a). fsub a f) ps) (map snd ps))
     = map (\<lambda>(f, a). fabs (fdiv (fsub a f) a)) ps"
  by (induction ps) auto

lemma compute_mape_pairs:
  assumes "\<forall>p \<in> set ps. \<not> isnan (snd p)"
  shows "compute_mape (map (\<lambda>(f, a). fsub a f) ps) (map snd ps) = Inr (mape_of ps)"
proof (cases "filter (\<lambda>(f, a). a \<noteq> Fin 0) ps = []")
  case True
  then show ?thesis
    using nonzero_count [OF assms] by (simp add: compute_mape_def mape_of_def Let_def)
next
  case False
  then have cnt: "filter id (map (\<lambda>a. fne a (Fin 0)) (map snd ps)) \<noteq> []"
    using nonzero_count [OF assms] by simp
  show ?thesis
    using False cnt
    by (simp add: compute_mape_def Let_def then_do_def bool_index_same
        nonzero_select_errors [OF assms] nonzero_select_actual [OF assms] broadcast2_same
        ratios_of_pairs mape_of_def del: map_map)
qed

lemma sq_errors:
  "map (\<lambda>e. fmul e e) (map (\<lambda>(f, a). fsub a f) ps)
     = map (\<lambda>(f, a). fmul (fsub a f) (fsub a f)) ps"
  by (induction ps) auto

lemma abs_errors:
  "map fabs (map (\<lambda>(f, a). fsub a f) ps) = map (\<lambda>(f, a). fabs (fsub a f)) ps"
  by (induction ps) auto

lemma metrics_try_equal_lengths:
  assumes len: "length fs = length as"
  shows "then_do (broadcast2 (\<lambda>f a. \<not> (isnan f \<or> isnan a)) fs as) (\<lambda>valid_mask.
         then_do (bool_index fs valid_mask) (\<lambda>fitted_clean.
         then_do (bool_index as valid_mask) (\<lambda>actual_clean. k fitted_clean actual_clean)))
       = k (map fst (filter (\<lambda>(f, a). \<not> isnan f \<and> \<not> isnan a) (zip fs as)))
           (map snd (filter (\<lambda>(f, a). \<not> isnan f \<and> \<not> isnan a) (zip fs as)))"
  using len
  by (simp add: broadcast2_same then_do_def bool_index_same clean_fitted clean_actual del: map_map)

lemma tail_slice_pos: "0 < n \<Longrightarrow> tail_slice n xs = last_n n xs"
  by (simp add: tail_slice_def last_n_def)

lemma aligned_pairs_not_NaN:
  "p \<in> set (aligned_pairs model) \<Longrightarrow> \<not> isnan (fst p) \<and> \<not> isnan (snd p)"
  by (auto simp: aligned_pairs_def Let_def)

lemma metrics_try_some:
  assumes ne: "aligned_pairs model \<noteq> []"
  shows "compute_metrics_try district model stats_data
           = Inr (Some (metrics_of_pairs district model stats_data (aligned_pairs model)))"
proof -
  let ?n = "min (length (fittedvalues model)) (length (endog model))"
  let ?fs = "last_n ?n (fittedvalues model)"
  let ?as = "last_n ?n (endog model)"
  let ?ps = "filter (\<lambda>(f, a). \<not> isnan f \<and> \<not> isnan a) (zip ?fs ?as)"
  have ps: "aligned_pairs model = ?ps" by (simp add: aligned_pairs_def Let_def)
  have pos: "0 < ?n"
  proof (rule ccontr)
    assume "\<not> 0 < ?n"
    then have "?n = 0" by auto
    then have "?ps = []" by (simp add: last_n_def)
    with ne ps show False by simp
  qed
  have len: "length ?fs = length ?as" by (simp add: last_n_def)
  have ne': "?ps \<noteq> []" using ne ps by simp
  have nn: "\<forall>p \<in> set ?ps. \<not> isnan (snd p)" by auto
  have "compute_metrics_try district model stats_data
          = Inr (Some (metrics_of_pairs district model stats_data ?ps))"
    unfolding compute_metrics_try_def Let_def tail_slice_pos [OF pos]
    apply (subst metrics_try_equal_lengths [OF len])
    using ne'
    apply (simp add: broadcast2_same errors_of_pairs then_do_def compute_mape_pairs [OF nn]
        metrics_of_pairs_def rmse_of_def mae_of_def sq_errors abs_errors del: map_map)
    done
  then show ?thesis by (simp only: ps)
qed

lemma metrics_try_none:
  assumes "aligned_pairs model = []"
  shows "compute_metrics_try district model stats_data = Inr None \<or>
         (\<exists>e. compute_metrics_try district model stats_data = Inl e)"
proof (cases "0 < min (length (fittedvalues model)) (length (endog model))")
  case True
  let ?n = "min (length (fittedvalues model)) (length (endog model))"
  let ?fs = "last_n ?n (fittedvalues model)"
  let ?as = "last_n ?n (endog model)"
  have len: "length ?fs = length ?as" by (simp add: last_n_def)
  have ps: "filter (\<lambda>(f, a). \<not> isnan f \<and> \<not> isnan a) (zip ?fs ?as) = []"
    using assms by (simp add: aligned_pairs_def Let_def)
  have "compute_metrics_try district model stats_data = Inr None"
    unfolding compute_metrics_try_def Let_def tail_slice_pos [OF True]
    apply (subst metrics_try_equal_lengths [OF len])
    apply (simp only: ps)
    apply simp
    done
  then show ?thesis by simp
next
  case False
  then have n0: "min (length (fittedvalues model)) (length (endog model)) = 0" by auto
  show ?thesis
  proof (cases "compute_metrics_try district model stats_data")
    case (Inl e)
    then show ?thesis by simp
  next
    case (Inr r)
    then show ?thesis
      using n0
      by (auto simp: compute_metrics_try_def Let_def tail_slice_def then_do_def
          broadcast2_def bool_index_def min_def split: if_splits sum.splits)
  qed
qed

lemma compute_metrics_found:
  assumes "map_of (models self) district = Some model"
  shows "compute_metrics self district fp =
           (if aligned_pairs model = [] then None
            else Some (metrics_of_pairs district model (stats_get self district) (aligned_pairs model)))"
proof (cases "aligned_pairs model = []")
  case True
  from metrics_try_none [OF True, of district "stats_get self district"]
  show ?thesis using assms True by (auto simp: compute_metrics_def)
next
  case False
  from metrics_try_some [OF False, of district "stats_get self district"]
  show ?thesis using assms False by (simp add: compute_metrics_def)
qed

lemma compute_metrics_SomeD:
  assumes "compute_metrics self district fp = Some m"
  shows "\<exists>model. map_of (models self) district = Some model \<and> aligned_pairs model \<noteq> [] \<and>
           m = metrics_of_pairs district model (stats_get self district) (aligned_pairs model)"
proof (cases "map_of (models self) district")
  case None
  with assms show ?thesis by (simp add: compute_metrics_def)
next
  case (Some model)
  with assms compute_metrics_found [OF Some, of fp] show ?thesis
    by (auto split: if_splits)
qed

subsection \<open>Signs and NaN of the three metrics\<close>

lemma error_terms_NaN:
  assumes "p \<in> set ps" "same_infinity p" "\<not> isnan (fst p)" "\<not> isnan (snd p)"
  shows "NaN \<in> set (map (\<lambda>(f, a). fmul (fsub a f) (fsub a f)) ps) \<and>
         NaN \<in> set (map (\<lambda>(f, a). fabs (fsub a f)) ps)"
proof -
  have "fsub (snd p) (fst p) = NaN"
    using fsub_NaN_iff [of "fst p" "snd p"] assms by simp
  then have "(\<lambda>(f, a). fmul (fsub a f) (fsub a f)) p = NaN" "(\<lambda>(f, a). fabs (fsub a f)) p = NaN"
    by (simp_all add: case_prod_unfold)
  with assms(1) show ?thesis by (metis (no_types, lifting) image_eqI set_map)
qed

lemma rmse_mae_NaN:
  assumes "\<forall>p \<in> set ps. \<not> isnan (fst p) \<and> \<not> isnan (snd p)"
      and "\<exists>p \<in> set ps. same_infinity p"
  shows "rmse_of ps = NaN \<and> mae_of ps = NaN"
proof -
  from assms obtain p where "p \<in> set ps" "same_infinity p" "\<not> isnan (fst p)" "\<not> isnan (snd p)"
    by blast
  from error_terms_NaN [OF this] show ?thesis
    by (simp add: rmse_of_def mae_of_def np_mean_has_NaN)
qed

lemma rmse_mae_fge0:
  assumes "ps \<noteq> []"
      and "\<forall>p \<in> set ps. \<not> isnan (fst p) \<and> \<not> isnan (snd p)"
      and "\<forall>p \<in> set ps. \<not> same_infinity p"
  shows "fge0 (rmse_of ps) \<and> fge0 (mae_of ps)"
proof -
  have e: "fsub (snd p) (fst p) \<noteq> NaN" if "p \<in> set ps" for p
    using fsub_NaN_iff [of "fst p" "snd p"] assms(2,3) that by simp
  have sq: "\<forall>x \<in> set (map (\<lambda>(f, a). fmul (fsub a f) (fsub a f)) ps). fge0 x"
    using e by (auto simp: fmul_self_fge0)
  have ab: "\<forall>x \<in> set (map (\<lambda>(f, a). fabs (fsub a f)) ps). fge0 x"
    using e by (auto simp: fabs_fge0)
  from assms(1) have ne: "map (\<lambda>(f, a). fmul (fsub a f) (fsub a f)) ps \<noteq> []"
    "map (\<lambda>(f, a). fabs (fsub a f)) ps \<noteq> []" by simp_all
  show ?thesis
    using np_mean_fge0 [OF ne(1) sq] np_mean_fge0 [OF ne(2) ab]
    by (simp add: rmse_of_def mae_of_def fsqrt_fge0)
qed

lemma mape_of_None_iff: "mape_of ps = None \<longleftrightarrow> (\<forall>p \<in> set ps. snd p = Fin 0)"
  by (simp add: mape_of_def Let_def filter_empty_conv case_prod_unfold)

lemma mape_of_NaN:
  assumes "\<forall>p \<in> set ps. \<not> isnan (fst p) \<and> \<not> isnan (snd p)"
      and "\<exists>p \<in> set ps. \<not> is_finite (snd p)"
  shows "mape_of ps = Some NaN"
proof -
  let ?nz = "filter (\<lambda>(f, a). a \<noteq> Fin 0) ps"
  from assms obtain p where p: "p \<in> set ps" "\<not> is_finite (snd p)"
    "\<not> isnan (fst p)" "\<not> isnan (snd p)" by blast
  then have z: "snd p \<noteq> Fin 0" by auto
  with p(1) have in_nz: "p \<in> set ?nz" by (simp add: case_prod_unfold)
  have "fdiv (fsub (snd p) (fst p)) (snd p) = NaN"
    using fdiv_error_NaN_iff [OF p(3,4) z] p(2) by simp
  then have "(\<lambda>(f, a). fabs (fdiv (fsub a f) a)) p = NaN" by (simp add: case_prod_unfold)
  with in_nz have "NaN \<in> set (map (\<lambda>(f, a). fabs (fdiv (fsub a f) a)) ?nz)"
    by (metis (no_types, lifting) image_eqI set_map)
  then have "np_mean (map (\<lambda>(f, a). fabs (fdiv (fsub a f) a)) ?nz) = NaN"
    by (rule np_mean_has_NaN)
  moreover have "?nz \<noteq> []" using in_nz by (metis empty_iff empty_set)
  ultimately show ?thesis by (simp add: mape_of_def Let_def)
qed

lemma mape_of_fge0:
  assumes "\<forall>p \<in> set ps. \<not> isnan (fst p) \<and> \<not> isnan (snd p)"
      and "\<forall>p \<in> set ps. is_finite (snd p)"
      and "mape_of ps = Some x"
  shows "fge0 x"
proof -
  let ?nz = "filter (\<lambda>(f, a). a \<noteq> Fin 0) ps"
  from assms(3) have ne: "?nz \<noteq> []"
    and x: "x = fmul (np_mean (map (\<lambda>(f, a). fabs (fdiv (fsub a f) a)) ?nz)) (Fin 100)"
    by (auto simp: mape_of_def Let_def split: if_splits)
  have "fdiv (fsub (snd p) (fst p)) (snd p) \<noteq> NaN" if "p \<in> set ?nz" for p
  proof -
    from that have "p \<in> set ps" "snd p \<noteq> Fin 0" by (auto simp: case_prod_unfold)
    with fdiv_error_NaN_iff [of "fst p" "snd p"] assms(1,2) show ?thesis by simp
  qed
  then have "\<forall>y \<in> set (map (\<lambda>(f, a). fabs (fdiv (fsub a f) a)) ?nz). fge0 y"
    by (auto simp: fabs_fge0)
  moreover from ne have "map (\<lambda>(f, a). fabs (fdiv (fsub a f) a)) ?nz \<noteq> []" by simp
  ultimately have "fge0 (np_mean (map (\<lambda>(f, a). fabs (fdiv (fsub a f) a)) ?nz))"
    using np_mean_fge0 by blast
  then show ?thesis by (simp add: x fmul_hundred_fge0)
qed

text \<open>The definitions that evaluate the floats and \<open>compute_metrics\<close> on concrete
  values.\<close>

lemmas float_eval = to_float_small fsub_def fgt_def fne_def

lemmas metrics_eval =
  compute_metrics_def compute_metrics_try_def tail_slice_def broadcast2_def bool_index_def
  then_do_def compute_mape_def np_mean_def np_sum_def np_std_def stats_get_def empty_stat_def
  dict_get_def Let_def float_eval

subsection \<open>RMSE, MAE and the alignment\<close>

text \<open>
  Claim C5, as amended. For a district with a fitted model, \<open>compute_metrics\<close> returns
  absent exactly when no valid pair remains after the fitted and actual sequences are
  cut to the last \<open>min (len fitted) (len actual)\<close> points of each and the positions
  with a missing value (NaN) on either side are dropped. Otherwise it returns a result
  whose RMSE and MAE are the formulas' values on those pairs; both are at least 0
  (possibly the infinity), unless some pair has the same infinity on both sides, and
  then both are NaN: an infinity is not a missing value and stays among the pairs.
\<close>

theorem compute_metrics_aligned:
  assumes "map_of (models self) district = Some model"
  shows "(aligned_pairs model = [] \<longrightarrow> compute_metrics self district fp = None) \<and>
         (aligned_pairs model \<noteq> [] \<longrightarrow>
            (\<exists>m. compute_metrics self district fp = Some m \<and>
                 met_rmse m = rmse_of (aligned_pairs model) \<and>
                 met_mae m = mae_of (aligned_pairs model) \<and>
                 ((\<exists>p \<in> set (aligned_pairs model). same_infinity p) \<longrightarrow>
                    met_rmse m = NaN \<and> met_mae m = NaN) \<and>
                 ((\<forall>p \<in> set (aligned_pairs model). \<not> same_infinity p) \<longrightarrow>
                    fge0 (met_rmse m) \<and> fge0 (met_mae m))))"
proof -
  have nn: "\<forall>p \<in> set (aligned_pairs model). \<not> isnan (fst p) \<and> \<not> isnan (snd p)"
    using aligned_pairs_not_NaN by blast
  show ?thesis
    using compute_metrics_found [OF assms, of fp] rmse_mae_NaN [OF nn]
          rmse_mae_fge0 [OF _ nn]
    by (simp add: metrics_of_pairs_def)
qed

text \<open>District A of the sample registry: three fitted values, the first missing, against
  four observations. The pairs are (1, 3) and (3, 5), and RMSE = MAE = 2.\<close>

theorem compute_metrics_aligned_witness:
  "map_of (models sample_registry) ''A'' = Some model_off \<and>
   aligned_pairs model_off = [(Fin 1, Fin 3), (Fin 3, Fin 5)] \<and>
   (\<exists>m. compute_metrics sample_registry ''A'' 6 = Some m \<and>
        met_rmse m = Fin 2 \<and> met_mae m = Fin 2 \<and> fge0 (met_rmse m) \<and> fge0 (met_mae m))"
proof -
  have found: "map_of (models sample_registry) ''A'' = Some model_off"
    by (simp add: sample_registry_def)
  have ps: "aligned_pairs model_off = [(Fin 1, Fin 3), (Fin 3, Fin 5)]"
    by (simp add: aligned_pairs_def model_off_def last_n_def)
  have r: "rmse_of [(Fin 1, Fin 3), (Fin 3, Fin 5)] = Fin 2"
    by (simp add: rmse_of_def np_mean_def np_sum_def float_eval)
  have a: "mae_of [(Fin 1, Fin 3), (Fin 3, Fin 5)] = Fin 2"
    by (simp add: mae_of_def np_mean_def np_sum_def float_eval)
  have si: "\<forall>p \<in> set (aligned_pairs model_off). \<not> same_infinity p"
    by (simp add: ps same_infinity_def)
  show ?thesis
    using compute_metrics_aligned [OF found, of 6] found ps r a si by auto
qed

text \<open>
  Claim C5 as stated says that RMSE and MAE of a result are at least 0. District B of
  the registry with infinite observations has the fitted value \<open>inf\<close> against the
  observation \<open>inf\<close>: the pair passes the NaN filter, its error is NaN, and the result
  has RMSE = MAE = NaN.
\<close>

theorem infinite_pair_gives_nan_rmse:
  "map_of (models infinite_registry) ''B'' = Some model_inf_both \<and>
   aligned_pairs model_inf_both = [(PInf, PInf)] \<and>
   map_option met_rmse (compute_metrics infinite_registry ''B'' 6) = Some NaN \<and>
   map_option met_mae (compute_metrics infinite_registry ''B'' 6) = Some NaN"
  by (simp add: metrics_eval infinite_registry_def model_inf_both_def model_exact_def
      aligned_pairs_def last_n_def)

subsection \<open>MAPE\<close>

text \<open>
  Claim C1, as amended. When \<open>compute_metrics\<close> succeeds, the MAPE field is absent if
  and only if every aligned actual value is zero; when some aligned actual value is
  non-zero it is the mean of |error/actual| over the pairs with a non-zero actual value,
  times 100. It is NaN when some aligned actual value is infinite (\<open>inf / inf\<close>), and
  when every aligned actual value is finite it is not NaN but at least 0.
\<close>

theorem mape_absent_iff_all_actuals_zero:
  assumes "map_of (models self) district = Some model"
      and "compute_metrics self district fp = Some m"
  shows "(met_mape m = None \<longleftrightarrow> (\<forall>p \<in> set (aligned_pairs model). snd p = Fin 0)) \<and>
         ((\<exists>p \<in> set (aligned_pairs model). snd p \<noteq> Fin 0) \<longrightarrow>
            met_mape m =
              Some (fmul (np_mean (map (\<lambda>(f, a). fabs (fdiv (fsub a f) a))
                                    (filter (\<lambda>(f, a). a \<noteq> Fin 0) (aligned_pairs model))))
                         (Fin 100))) \<and>
         ((\<exists>p \<in> set (aligned_pairs model). \<not> is_finite (snd p)) \<longrightarrow> met_mape m = Some NaN) \<and>
         ((\<forall>p \<in> set (aligned_pairs model). is_finite (snd p)) \<longrightarrow>
            met_mape m \<noteq> Some NaN \<and> (\<forall>x. met_mape m = Some x \<longrightarrow> fge0 x))"
proof -
  from compute_metrics_found [OF assms(1), of fp] assms(2)
  have m: "m = metrics_of_pairs district model (stats_get self district) (aligned_pairs model)"
    by (auto split: if_splits)
  have mape: "met_mape m = mape_of (aligned_pairs model)"
    by (simp add: m metrics_of_pairs_def)
  have nn: "\<forall>p \<in> set (aligned_pairs model). \<not> isnan (fst p) \<and> \<not> isnan (snd p)"
    using aligned_pairs_not_NaN by blast
  have 1: "met_mape m = None \<longleftrightarrow> (\<forall>p \<in> set (aligned_pairs model). snd p = Fin 0)"
    by (simp add: mape mape_of_None_iff)
  have 2: "(\<exists>p \<in> set (aligned_pairs model). snd p \<noteq> Fin 0) \<longrightarrow>
            met_mape m =
              Some (fmul (np_mean (map (\<lambda>(f, a). fabs (fdiv (fsub a f) a))
                                    (filter (\<lambda>(f, a). a \<noteq> Fin 0) (aligned_pairs model))))
                         (Fin 100))"
    by (auto simp: mape mape_of_def Let_def filter_empty_conv)
  have 3: "(\<exists>p \<in> set (aligned_pairs model). \<not> is_finite (snd p)) \<longrightarrow> met_mape m = Some NaN"
    using mape_of_NaN [OF nn] by (simp add: mape)
  have 4: "(\<forall>p \<in> set (aligned_pairs model). is_finite (snd p)) \<longrightarrow>
            met_mape m \<noteq> Some NaN \<and> (\<forall>x. met_mape m = Some x \<longrightarrow> fge0 x)"
    using mape_of_fge0 [OF nn] fge0_not_NaN by (auto simp: mape)
  from 1 2 3 4 show ?thesis by blast
qed

text \<open>District A again: |2/3| and |2/5| average to 8/15, so MAPE is 160/3.\<close>

theorem mape_absent_iff_all_actuals_zero_witness:
  "map_of (models sample_registry) ''A'' = Some model_off \<and>
   (\<exists>p \<in> set (aligned_pairs model_off). snd p \<noteq> Fin 0) \<and>
   list_all (\<lambda>p. is_finite (snd p)) (aligned_pairs model_off) \<and>
   (\<exists>m. compute_metrics sample_registry ''A'' 6 = Some m \<and>
        met_mape m = Some (Fin (160 / 3)) \<and> met_mape m \<noteq> Some NaN)"
proof -
  have found: "map_of (models sample_registry) ''A'' = Some model_off"
    by (simp add: sample_registry_def)
  have ps: "aligned_pairs model_off = [(Fin 1, Fin 3), (Fin 3, Fin 5)]"
    by (simp add: aligned_pairs_def model_off_def last_n_def)
  have "\<exists>m. compute_metrics sample_registry ''A'' 6 = Some m"
    by (simp add: metrics_eval sample_registry_def model_off_def)
  then obtain m where m: "compute_metrics sample_registry ''A'' 6 = Some m" ..
  have nz: "\<exists>p \<in> set (aligned_pairs model_off). snd p \<noteq> Fin 0" by (simp add: ps)
  have fin: "\<forall>p \<in> set (aligned_pairs model_off). is_finite (snd p)" by (simp add: ps)
  from mape_absent_iff_all_actuals_zero [OF found m] nz fin
  have v: "met_mape m =
             Some (fmul (np_mean (map (\<lambda>(f, a). fabs (fdiv (fsub a f) a))
                                   (filter (\<lambda>(f, a). a \<noteq> Fin 0) (aligned_pairs model_off))))
                        (Fin 100))"
    and n: "met_mape m \<noteq> Some NaN"
    by blast+
  from v have "met_mape m = Some (Fin (160 / 3))"
    by (simp add: ps np_mean_def np_sum_def float_eval)
  with found m nz fin n show ?thesis by (auto simp: list_all_iff)
qed

text \<open>
  Claim C1 as stated says that MAPE is never NaN. District A of the registry with
  infinite observations has the fitted value 1 against the observation \<open>inf\<close>: the
  error is \<open>inf\<close>, the ratio \<open>inf / inf\<close> is NaN, and so is MAPE.
\<close>

theorem infinite_actual_gives_nan_mape:
  "map_of (models infinite_registry) ''A'' = Some model_inf_actual \<and>
   aligned_pairs model_inf_actual = [(Fin 1, PInf)] \<and>
   map_option met_mape (compute_metrics infinite_registry ''A'' 6) = Some (Some NaN)"
  by (simp add: metrics_eval infinite_registry_def model_inf_actual_def model_exact_def
      aligned_pairs_def last_n_def)

subsection \<open>The coverage field\<close>

text \<open>
  Claim C7. When \<open>compute_metrics\<close> succeeds, the field \<open>ci_coverage_95\<close> of its result
  is absent, whatever the model and the \<open>forecast_periods\<close> argument.
\<close>

theorem ci_coverage_always_unset:
  "compute_metrics self district forecast_periods = Some m \<Longrightarrow> met_ci_coverage_95 m = None"
  by (auto dest!: compute_metrics_SomeD simp: metrics_of_pairs_def)

theorem ci_coverage_always_unset_witness:
  "\<exists>m. compute_metrics sample_registry ''C'' 24 = Some m \<and> met_ci_coverage_95 m = None"
proof -
  have "\<exists>m. compute_metrics sample_registry ''C'' 24 = Some m"
    by (simp add: metrics_eval sample_registry_def model_exact_def)
  then obtain m where m: "compute_metrics sample_registry ''C'' 24 = Some m" ..
  from ci_coverage_always_unset [OF m] m show ?thesis by blast
qed

section \<open>Diagnostic tests: the derived fields\<close>

lemma then_do_Inr_iff:
  "then_do r k = Inr y \<longleftrightarrow> (\<exists>x. r = Inr x \<and> k x = Inr y)"
  by (cases r) (simp_all add: then_do_def)


lemma compute_diagnostics_SomeD:
  assumes "compute_diagnostics lib self district = Some d"
  shows "\<exists>model adf lb lbp s p.
           map_of (models self) district = Some model \<and>
           adfuller lib (dropna (resid model)) = Inr adf \<and>
           acorr_ljungbox lib (dropna (resid model)) [10] = Inr lb \<and>
           iloc lb 0 = Inr lbp \<and>
           shapiro_step lib (dropna (resid model)) = Inr (s, p) \<and>
           adf_pvalue d = adf_p adf \<and>
           is_stationary d = flt (adf_p adf) (Fin 0.05) \<and>
           ljung_box_pvalue d = lbp \<and>
           no_autocorrelation d = fgt lbp (Fin 0.05) \<and>
           shapiro_pvalue d = (if opt_truthy p then p else None)"
proof (cases "map_of (models self) district")
  case None
  with assms show ?thesis by (simp add: compute_diagnostics_def)
next
  case (Some model)
  with assms have "compute_diagnostics_try lib district model (stats_get self district) = Inr d"
    by (simp add: compute_diagnostics_def split: sum.splits)
  then show ?thesis
    using Some
    by (auto simp: compute_diagnostics_try_def Let_def then_do_Inr_iff split del: if_split)
qed

lemma flt_iff: "flt x (Fin c) \<longleftrightarrow> (\<exists>p. x = Fin p \<and> p < c) \<or> x = NInf"
  by (cases x) simp_all

lemma fgt_iff: "fgt x (Fin c) \<longleftrightarrow> (\<exists>p. x = Fin p \<and> p > c) \<or> x = PInf"
  by (cases x) (simp_all add: fgt_def)

text \<open>The definitions that evaluate \<open>compute_diagnostics\<close> on a concrete registry.\<close>

lemmas diag_eval =
  compute_diagnostics_def compute_diagnostics_try_def shapiro_step_def then_do_def iloc_def
  dropna_def stats_get_def empty_stat_def dict_get_def Let_def float_eval

subsection \<open>Stationarity and autocorrelation flags\<close>

text \<open>
  Claim C6. In every result of \<open>compute_diagnostics\<close>, \<open>is_stationary\<close> holds if and
  only if the ADF p-value is strictly below 0.05 (a number below 0.05, or the negative
  infinity), and \<open>no_autocorrelation\<close> holds if and only if the Ljung-Box p-value is
  strictly above 0.05 (a number above 0.05, or the positive infinity); a p-value of
  exactly 0.05, and NaN, make the flag false; and the two p-values are the ones the ADF
  test and the Ljung-Box test at lag 10 returned on the cleaned residuals of this
  district.
\<close>

theorem diagnostic_flags_strict:
  assumes "compute_diagnostics lib self district = Some d"
  shows "(is_stationary d \<longleftrightarrow> (\<exists>p. adf_pvalue d = Fin p \<and> p < 0.05) \<or> adf_pvalue d = NInf) \<and>
         (no_autocorrelation d \<longleftrightarrow>
            (\<exists>q. ljung_box_pvalue d = Fin q \<and> q > 0.05) \<or> ljung_box_pvalue d = PInf) \<and>
         (adf_pvalue d = Fin 0.05 \<longrightarrow> \<not> is_stationary d) \<and>
         (ljung_box_pvalue d = Fin 0.05 \<longrightarrow> \<not> no_autocorrelation d) \<and>
         (\<exists>model adf lb.
            map_of (models self) district = Some model \<and>
            adfuller lib (dropna (resid model)) = Inr adf \<and> adf_pvalue d = adf_p adf \<and>
            acorr_ljungbox lib (dropna (resid model)) [10] = Inr lb \<and>
            iloc lb 0 = Inr (ljung_box_pvalue d))"
proof -
  from compute_diagnostics_SomeD [OF assms]
  obtain model adf lb lbp where
    f: "map_of (models self) district = Some model"
       "adfuller lib (dropna (resid model)) = Inr adf"
       "acorr_ljungbox lib (dropna (resid model)) [10] = Inr lb"
       "iloc lb 0 = Inr lbp"
       "adf_pvalue d = adf_p adf"
       "is_stationary d = flt (adf_p adf) (Fin 0.05)"
       "ljung_box_pvalue d = lbp"
       "no_autocorrelation d = fgt lbp (Fin 0.05)"
    by blast
  have 1: "is_stationary d \<longleftrightarrow> (\<exists>p. adf_pvalue d = Fin p \<and> p < 0.05) \<or> adf_pvalue d = NInf"
    using f(5,6) by (simp add: flt_iff)
  have 2: "no_autocorrelation d \<longleftrightarrow>
             (\<exists>q. ljung_box_pvalue d = Fin q \<and> q > 0.05) \<or> ljung_box_pvalue d = PInf"
    using f(7,8) by (simp add: fgt_iff)
  have 3: "adf_pvalue d = Fin 0.05 \<longrightarrow> \<not> is_stationary d"
    using 1 by auto
  have 4: "ljung_box_pvalue d = Fin 0.05 \<longrightarrow> \<not> no_autocorrelation d"
    using 2 by auto
  have 5: "\<exists>model adf lb.
            map_of (models self) district = Some model \<and>
            adfuller lib (dropna (resid model)) = Inr adf \<and> adf_pvalue d = adf_p adf \<and>
            acorr_ljungbox lib (dropna (resid model)) [10] = Inr lb \<and>
            iloc lb 0 = Inr (ljung_box_pvalue d)"
    using f by blast
  from 1 2 3 4 5 show ?thesis by blast
qed

text \<open>Both tests return exactly 0.05 in the boundary library: both flags are false.\<close>

theorem diagnostic_flags_strict_witness:
  "\<exists>d. compute_diagnostics boundary_library sample_registry ''C'' = Some d \<and>
       adf_pvalue d = Fin 0.05 \<and> ljung_box_pvalue d = Fin 0.05 \<and>
       \<not> is_stationary d \<and> \<not> no_autocorrelation d"
proof -
  have "\<exists>d. compute_diagnostics boundary_library sample_registry ''C'' = Some d \<and>
            adf_pvalue d = Fin 0.05 \<and> ljung_box_pvalue d = Fin 0.05"
    by (simp add: diag_eval boundary_library_def sample_library_def sample_adf_def
        sample_registry_def model_exact_def)
  then obtain d where d: "compute_diagnostics boundary_library sample_registry ''C'' = Some d"
    and p: "adf_pvalue d = Fin 0.05" "ljung_box_pvalue d = Fin 0.05" by blast
  from diagnostic_flags_strict [OF d] p have "\<not> is_stationary d \<and> \<not> no_autocorrelation d"
    by blast
  with d p show ?thesis by blast
qed

subsection \<open>The normality p-value\<close>





section \<open>Unknown districts\<close>

text \<open>
  Claim C9. For a district that is not a key of the model registry,
  \<open>compute_diagnostics\<close>, \<open>compute_metrics\<close>, \<open>generate_forecast_plot\<close> and
  \<open>generate_residual_plots\<close> each return absent, whatever the registry holds and
  whatever the libraries would do: no model is read and nothing is raised.
\<close>

theorem unknown_district_absent:
  assumes "district \<notin> set (get_districts self)"
  shows "compute_diagnostics lib self district = None \<and>
         compute_metrics self district forecast_periods = None \<and>
         generate_forecast_plot lib self district periods confidence_level show_fitted = None \<and>
         generate_residual_plots lib self district = None"
proof -
  from assms have "map_of (models self) district = None"
    by (simp add: get_districts_def map_of_eq_None_iff)
  then show ?thesis
    by (simp add: compute_diagnostics_def compute_metrics_def generate_forecast_plot_def
        generate_residual_plots_def)
qed

theorem unknown_district_absent_witness:
  "''Z'' \<notin> set (get_districts sample_registry) \<and>
   compute_diagnostics sample_library sample_registry ''Z'' = None \<and>
   compute_metrics sample_registry ''Z'' 6 = None \<and>
   generate_forecast_plot sample_library sample_registry ''Z'' 24 (Fin 0.95) True = None \<and>
   generate_residual_plots sample_library sample_registry ''Z'' = None"
proof -
  have z: "''Z'' \<notin> set (get_districts sample_registry)"
    by (simp add: get_districts_def sample_registry_def)
  from unknown_district_absent [OF z] z show ?thesis by blast
qed

section \<open>The summary table: its rows and their order\<close>

subsection \<open>A sort that meets the library's promise\<close>

lemma key_le_total: "\<not> key_le a b \<Longrightarrow> key_le b a"
  by (cases a; cases b) (simp_all add: key_le_def)

lemma key_le_trans: "key_le a b \<Longrightarrow> key_le b c \<Longrightarrow> key_le a c"
  by (cases a; cases b; cases c) (simp_all add: key_le_def)

lemma mset_insert_before: "mset (insert_before key x ys) = add_mset x (mset ys)"
  by (induction ys) simp_all

lemma set_insert_before: "set (insert_before key x ys) = insert x (set ys)"
  by (induction ys) auto

lemma sorted_insert_before:
  "sorted_wrt (\<lambda>r s. key_le (key r) (key s)) ys \<Longrightarrow>
   sorted_wrt (\<lambda>r s. key_le (key r) (key s)) (insert_before key x ys)"
proof (induction ys)
  case Nil
  then show ?case by simp
next
  case (Cons y ys)
  then show ?case
    by (auto simp: set_insert_before dest: key_le_total intro: key_le_trans)
qed

lemma mset_stable_sort: "mset (stable_sort key rows) = mset rows"
  by (induction rows) (simp_all add: stable_sort_def mset_insert_before)

lemma sorted_stable_sort:
  "sorted_wrt (\<lambda>r s. key_le (key r) (key s)) (stable_sort key rows)"
  by (induction rows) (simp_all add: stable_sort_def sorted_insert_before)

lemma sorts_by_key_sample: "sorts_by_key sample_library"
  by (simp add: sorts_by_key_def sample_library_def mset_stable_sort sorted_stable_sort)

subsection \<open>The rows of the table\<close>

lemma summary_loop_rows:
  "summary_loop lib self ds rows = rows @ concat (map (district_rows lib self) ds)"
  by (induction ds arbitrary: rows) (auto simp: district_rows_def split: option.splits)

lemma district_rows_names:
  "map row_district (concat (map (district_rows lib self) ds)) = filter (both_succeed lib self) ds"
  by (induction ds)
     (auto simp: district_rows_def both_succeed_def summary_row_of_def split: option.splits)

lemma district_rows_memD:
  "r \<in> set (district_rows lib self d) \<Longrightarrow>
   \<exists>diags mets. compute_diagnostics lib self d = Some diags \<and>
                compute_metrics self d 6 = Some mets \<and> r = summary_row_of d diags mets"
  by (cases "compute_diagnostics lib self d"; cases "compute_metrics self d 6")
     (simp_all add: district_rows_def)



lemma py_round_NaN: "py_round NaN nd = NaN"
  by simp




lemma summary_table_mset:
  "sorts_by_key lib \<Longrightarrow>
   mset (generate_summary_table lib self) = mset (summary_loop lib self (get_districts self) [])"
  by (simp add: generate_summary_table_def Let_def sorts_by_key_def)

lemma summary_table_empty:
  "summary_loop lib self (get_districts self) [] = [] \<Longrightarrow> generate_summary_table lib self = []"
  by (simp add: generate_summary_table_def Let_def)

lemma summary_table_names:
  assumes "sorts_by_key lib"
  shows "mset (map row_district (generate_summary_table lib self))
           = mset (filter (both_succeed lib self) (get_districts self))"
proof -
  have "image_mset row_district (mset (generate_summary_table lib self))
          = image_mset row_district (mset (summary_loop lib self (get_districts self) []))"
    by (simp only: summary_table_mset [OF assms])
  then have "mset (map row_district (generate_summary_table lib self))
               = mset (map row_district (summary_loop lib self (get_districts self) []))"
    by simp
  then show ?thesis by (simp add: summary_loop_rows district_rows_names)
qed

lemma count_list_distinct_filter:
  "distinct xs \<Longrightarrow> count_list (filter P xs) d = (if d \<in> set xs \<and> P d then 1 else 0)"
  by (induction xs) auto

lemma summary_row_in_table:
  assumes "sorts_by_key lib" "d \<in> set (get_districts self)"
      and "compute_diagnostics lib self d = Some diags" "compute_metrics self d 6 = Some mets"
  shows "summary_row_of d diags mets \<in> set (generate_summary_table lib self)"
proof -
  have "summary_row_of d diags mets \<in> set (district_rows lib self d)"
    using assms(3,4) by (simp add: district_rows_def)
  with assms(2) have "summary_row_of d diags mets \<in> set (summary_loop lib self (get_districts self) [])"
    by (auto simp: summary_loop_rows)
  moreover have "set (generate_summary_table lib self)
                   = set (summary_loop lib self (get_districts self) [])"
    by (rule mset_eq_setD [OF summary_table_mset [OF assms(1)]])
  ultimately show ?thesis by simp
qed

lemma summary_rows_of_district:
  assumes "sorts_by_key lib"
      and "compute_diagnostics lib self d = Some diags" "compute_metrics self d 6 = Some mets"
      and "r \<in> set (generate_summary_table lib self)" "row_district r = d"
  shows "r = summary_row_of d diags mets"
proof -
  have "set (generate_summary_table lib self)
          = set (summary_loop lib self (get_districts self) [])"
    by (rule mset_eq_setD [OF summary_table_mset [OF assms(1)]])
  with assms(4) obtain d' where r: "r \<in> set (district_rows lib self d')"
    by (auto simp: summary_loop_rows)
  from district_rows_memD [OF r] obtain diags' mets' where
    r': "compute_diagnostics lib self d' = Some diags'" "compute_metrics self d' 6 = Some mets'"
        "r = summary_row_of d' diags' mets'" by blast
  from r'(3) assms(5) have "d' = d" by (simp add: summary_row_of_def)
  with r' assms(2,3) show ?thesis by simp
qed



subsection \<open>The order of the rows\<close>









subsection \<open>Which districts have a row\<close>

text \<open>
  Claim C4. The summary table is built without raising; it is empty for an empty
  registry and when no district has both results; when the sort keeps its promise its
  districts are exactly those for which both \<open>compute_diagnostics\<close> and
  \<open>compute_metrics\<close> return a result, and, the keys of the registry being distinct,
  each of them has exactly one row and every other district none.
\<close>

theorem summary_rows_exactly_successful:
  "(get_districts self = [] \<longrightarrow> generate_summary_table lib self = []) \<and>
   ((\<forall>d \<in> set (get_districts self). \<not> both_succeed lib self d)
      \<longrightarrow> generate_summary_table lib self = []) \<and>
   (sorts_by_key lib \<longrightarrow>
      mset (map row_district (generate_summary_table lib self))
        = mset (filter (both_succeed lib self) (get_districts self))) \<and>
   (sorts_by_key lib \<and> distinct (get_districts self) \<longrightarrow>
      (\<forall>d. count_list (map row_district (generate_summary_table lib self)) d
             = (if d \<in> set (get_districts self) \<and> both_succeed lib self d then 1 else 0)))"
proof -
  have none: "(\<forall>d \<in> set (get_districts self). \<not> both_succeed lib self d)
      \<Longrightarrow> generate_summary_table lib self = []"
  proof -
    assume a: "\<forall>d \<in> set (get_districts self). \<not> both_succeed lib self d"
    have "map row_district (summary_loop lib self (get_districts self) [])
            = filter (both_succeed lib self) (get_districts self)"
      by (simp add: summary_loop_rows district_rows_names)
    also have "\<dots> = []" using a by (simp add: filter_empty_conv)
    finally have "summary_loop lib self (get_districts self) [] = []" by simp
    then show ?thesis by (rule summary_table_empty)
  qed
  have empty: "get_districts self = [] \<Longrightarrow> generate_summary_table lib self = []"
    using none by simp
  have count: "sorts_by_key lib \<Longrightarrow> distinct (get_districts self) \<Longrightarrow>
      count_list (map row_district (generate_summary_table lib self)) d
             = (if d \<in> set (get_districts self) \<and> both_succeed lib self d then 1 else 0)" for d
  proof -
    assume s: "sorts_by_key lib" and dist: "distinct (get_districts self)"
    have "count_list (map row_district (generate_summary_table lib self)) d
            = count (mset (map row_district (generate_summary_table lib self))) d"
      by (simp only: count_mset)
    also have "\<dots> = count (mset (filter (both_succeed lib self) (get_districts self))) d"
      by (simp only: summary_table_names [OF s])
    also have "\<dots> = count_list (filter (both_succeed lib self) (get_districts self)) d"
      by (simp only: count_mset)
    finally show ?thesis by (simp only: count_list_distinct_filter [OF dist])
  qed
  from none empty count summary_table_names show ?thesis by blast
qed

text \<open>The sample registry: A has one row, B (three residuals, the stationarity test
  raises) has none; a registry holding only B gives the empty table.\<close>

theorem summary_rows_exactly_successful_witness:
  "sorts_by_key sample_library \<and> distinct (get_districts sample_registry) \<and>
   both_succeed sample_library sample_registry ''A'' \<and>
   \<not> both_succeed sample_library sample_registry ''B'' \<and>
   count_list (map row_district (generate_summary_table sample_library sample_registry)) ''A'' = 1 \<and>
   count_list (map row_district (generate_summary_table sample_library sample_registry)) ''B'' = 0 \<and>
   get_districts failing_registry = [''B''] \<and>
   \<not> both_succeed sample_library failing_registry ''B'' \<and>
   generate_summary_table sample_library failing_registry = []"
proof -
  have dist: "distinct (get_districts sample_registry)"
    by (simp add: get_districts_def sample_registry_def)
  have a: "both_succeed sample_library sample_registry ''A''"
    by (simp add: both_succeed_def diag_eval metrics_eval sample_library_def sample_adf_def
        sample_registry_def model_off_def)
  have b: "\<not> both_succeed sample_library sample_registry ''B''"
    by (simp add: both_succeed_def diag_eval sample_library_def sample_registry_def model_few_def)
  have ds: "get_districts failing_registry = [''B'']"
    by (simp add: get_districts_def failing_registry_def)
  have fb: "\<not> both_succeed sample_library failing_registry ''B''"
    by (simp add: failing_registry_def both_succeed_def diag_eval sample_library_def
        model_few_def)
  from ds fb have f: "\<forall>d \<in> set (get_districts failing_registry).
             \<not> both_succeed sample_library failing_registry d"
    by simp
  have ina: "''A'' \<in> set (get_districts sample_registry)"
    by (simp add: get_districts_def sample_registry_def)
  from summary_rows_exactly_successful [of sample_registry sample_library]
       sorts_by_key_sample dist
  have cnt: "\<And>d. count_list (map row_district (generate_summary_table sample_library sample_registry)) d
             = (if d \<in> set (get_districts sample_registry) \<and> both_succeed sample_library sample_registry d
                then 1 else 0)"
    by blast
  from summary_rows_exactly_successful [of failing_registry sample_library] f
  have e: "generate_summary_table sample_library failing_registry = []" by blast
  from cnt [of "''A''"] cnt [of "''B''"] a b ina dist ds fb e sorts_by_key_sample
  show ?thesis by simp
qed

subsection \<open>A MAPE of zero in the table\<close>

text \<open>
  Claim C10. The row built from a metrics result whose MAPE is exactly 0 has its MAPE
  column absent, as the row built from an absent MAPE has; the same holds of a coverage
  of exactly 0. When the sort keeps its promise, the summary table of a registry holding
  such a district contains that row, and every row of the district has the MAPE absent.
\<close>

theorem zero_mape_shown_absent:
  "(met_mape mets = Some (Fin 0) \<longrightarrow> row_mape (summary_row_of d diags mets) = None) \<and>
   (met_mape mets = None \<longrightarrow> row_mape (summary_row_of d diags mets) = None) \<and>
   (met_ci_coverage_95 mets = Some (Fin 0) \<longrightarrow>
      row_ci_coverage (summary_row_of d diags mets) = None) \<and>
   (sorts_by_key lib \<and> d \<in> set (get_districts self) \<and>
    compute_diagnostics lib self d = Some diags \<and> compute_metrics self d 6 = Some mets \<and>
    met_mape mets = Some (Fin 0) \<longrightarrow>
      summary_row_of d diags mets \<in> set (generate_summary_table lib self) \<and>
      (\<forall>r \<in> set (generate_summary_table lib self). row_district r = d \<longrightarrow> row_mape r = None))"
proof -
  have 1: "met_mape mets = Some (Fin 0) \<longrightarrow> row_mape (summary_row_of d diags mets) = None"
    by (simp add: summary_row_of_def)
  have 2: "met_mape mets = None \<longrightarrow> row_mape (summary_row_of d diags mets) = None"
    by (simp add: summary_row_of_def)
  have 3: "met_ci_coverage_95 mets = Some (Fin 0) \<longrightarrow>
             row_ci_coverage (summary_row_of d diags mets) = None"
    by (simp add: summary_row_of_def)
  have 4: "sorts_by_key lib \<and> d \<in> set (get_districts self) \<and>
    compute_diagnostics lib self d = Some diags \<and> compute_metrics self d 6 = Some mets \<and>
    met_mape mets = Some (Fin 0) \<longrightarrow>
      summary_row_of d diags mets \<in> set (generate_summary_table lib self) \<and>
      (\<forall>r \<in> set (generate_summary_table lib self). row_district r = d \<longrightarrow> row_mape r = None)"
  proof (intro impI, elim conjE)
    assume s: "sorts_by_key lib" and d: "d \<in> set (get_districts self)"
      and dg: "compute_diagnostics lib self d = Some diags"
      and m: "compute_metrics self d 6 = Some mets"
      and z: "met_mape mets = Some (Fin 0)"
    have a: "summary_row_of d diags mets \<in> set (generate_summary_table lib self)"
      by (rule summary_row_in_table [OF s d dg m])
    have b: "\<forall>r \<in> set (generate_summary_table lib self). row_district r = d \<longrightarrow> row_mape r = None"
    proof (intro ballI impI)
      fix r assume "r \<in> set (generate_summary_table lib self)" "row_district r = d"
      from summary_rows_of_district [OF s dg m this]
      have "r = summary_row_of d diags mets" .
      with 1 z show "row_mape r = None" by simp
    qed
    from a b show "summary_row_of d diags mets \<in> set (generate_summary_table lib self) \<and>
      (\<forall>r \<in> set (generate_summary_table lib self). row_district r = d \<longrightarrow> row_mape r = None)"
      by simp
  qed
  from 1 2 3 4 show ?thesis by (intro conjI)
qed

text \<open>District C of the sample registry is fitted exactly: its MAPE is 0.\<close>

theorem zero_mape_shown_absent_witness:
  "\<exists>diags mets.
     compute_diagnostics sample_library sample_registry ''C'' = Some diags \<and>
     compute_metrics sample_registry ''C'' 6 = Some mets \<and>
     met_mape mets = Some (Fin 0) \<and>
     sorts_by_key sample_library \<and> ''C'' \<in> set (get_districts sample_registry) \<and>
     summary_row_of ''C'' diags mets \<in> set (generate_summary_table sample_library sample_registry) \<and>
     row_mape (summary_row_of ''C'' diags mets) = None"
proof -
  have "\<exists>diags. compute_diagnostics sample_library sample_registry ''C'' = Some diags"
    by (simp add: diag_eval sample_library_def sample_registry_def model_exact_def)
  then obtain diags where
    dg: "compute_diagnostics sample_library sample_registry ''C'' = Some diags" ..
  have "\<exists>mets. compute_metrics sample_registry ''C'' 6 = Some mets \<and> met_mape mets = Some (Fin 0)"
    by (simp add: metrics_eval sample_registry_def model_exact_def)
  then obtain mets where
    m: "compute_metrics sample_registry ''C'' 6 = Some mets" and z: "met_mape mets = Some (Fin 0)"
    by blast
  have c: "''C'' \<in> set (get_districts sample_registry)"
    by (simp add: get_districts_def sample_registry_def)
  from zero_mape_shown_absent [of mets "''C''" diags sample_library sample_registry]
       sorts_by_key_sample c dg m z
  have "summary_row_of ''C'' diags mets
          \<in> set (generate_summary_table sample_library sample_registry) \<and>
        row_mape (summary_row_of ''C'' diags mets) = None"
    by blast
  with dg m z c sorts_by_key_sample show ?thesis by blast
qed

section \<open>The forecast export: the rows each district leaves\<close>

text \<open>The export itself never raises: every district of the loop is a key of the
  registry, and the file holds, district by district, the rows each block left. When no
  exception can arise while rows are built, a district that raises leaves no row and
  every other district leaves one row per step, numbered from 1: the file has
  (districts that did not raise) times horizon rows.\<close>

lemma forecast_loop_append:
  "forecast_loop lib d preds ci steps rows
     = (rows @ fst (forecast_loop lib d preds ci steps []),
        snd (forecast_loop lib d preds ci steps []))"
proof (induction steps arbitrary: rows)
  case Nil
  then show ?case by simp
next
  case (Cons i steps)
  show ?case
  proof (cases "forecast_row_at lib d preds ci i")
    case (Inl e)
    then show ?thesis by simp
  next
    case (Inr r)
    from Cons [of "rows @ [r]"] Cons [of "[r]"] Inr show ?thesis by simp
  qed
qed

lemma export_district_try_append:
  "export_district_try lib d model h rows
     = (rows @ fst (export_district_try lib d model h []),
        snd (export_district_try lib d model h []))"
  using forecast_loop_append [of lib d _ _ _ rows]
  by (auto simp: export_district_try_def Let_def split: sum.splits)

lemma export_loop_rows:
  "set ds \<subseteq> set (get_districts self) \<Longrightarrow>
   export_loop lib self h ds rows = Inr (rows @ concat (map (region_rows lib self h) ds))"
proof (induction ds arbitrary: rows)
  case Nil
  then show ?case by simp
next
  case (Cons d ds)
  then have "d \<in> fst ` set (models self)" by (simp add: get_districts_def)
  then obtain model where m: "map_of (models self) d = Some model"
    by (metis domIff dom_map_of_conv_image_fst not_None_eq)
  have "fst (export_district_try lib d model h rows) = rows @ region_rows lib self h d"
    using export_district_try_append [of lib d model h rows] by (simp add: region_rows_def m)
  with Cons m show ?case by simp
qed

lemma export_never_raises:
  "export_forecasts_csv lib self h
     = Inr (concat (map (region_rows lib self h) (get_districts self)))"
  using export_loop_rows [of "get_districts self" self lib h "[]"]
  by (simp add: export_forecasts_csv_def)

lemma forecast_loop_complete:
  assumes "\<forall>i \<in> set steps. \<exists>r. forecast_row_at lib d preds ci i = Inr r"
  shows "snd (forecast_loop lib d preds ci steps rows) = None \<and>
         map fr_period (fst (forecast_loop lib d preds ci steps rows))
           = map fr_period rows @ map (\<lambda>i. int i + 1) steps \<and>
         map fr_district (fst (forecast_loop lib d preds ci steps rows))
           = map fr_district rows @ map (\<lambda>i. d) steps"
  using assms
proof (induction steps arbitrary: rows)
  case Nil
  then show ?case by simp
next
  case (Cons i steps)
  then obtain r where r: "forecast_row_at lib d preds ci i = Inr r" by auto
  then have "fr_period r = int i + 1" "fr_district r = d"
    by (auto simp: forecast_row_at_def then_do_Inr_iff)
  with Cons.IH [of "rows @ [r]"] Cons.prems r show ?case by simp
qed

lemma forecast_row_at_ok:
  assumes "i < length preds" "i < length ci" "month_offset lib (i + 1) = Inr date"
  shows "\<exists>r. forecast_row_at lib d preds ci i = Inr r"
  using assms by (simp add: forecast_row_at_def then_do_def iloc_def split: prod.splits)

lemma region_rows_when_rows_never_fail:
  assumes "rows_never_fail lib self h d"
  shows "if region_raises lib self h d then region_rows lib self h d = []
         else map fr_period (region_rows lib self h d) = map (\<lambda>i. int i + 1) [0..<nat h] \<and>
              map fr_district (region_rows lib self h d) = map (\<lambda>i. d) [0..<nat h]"
proof (cases "map_of (models self) d")
  case None
  with assms show ?thesis by (simp add: rows_never_fail_def)
next
  case (Some model)
  show ?thesis
  proof (cases "get_forecast model h")
    case (Inl e)
    with Some show ?thesis
      by (simp add: region_raises_def region_rows_def export_district_try_def)
  next
    case (Inr fr)
    show ?thesis
    proof (cases "conf_int fr (Fin 0.05)")
      case (Inl e)
      with Some Inr show ?thesis
        by (simp add: region_raises_def region_rows_def export_district_try_def)
    next
      case ci: (Inr ci)
      from assms Some Inr ci have len: "nat h \<le> length (predicted_mean fr)" "nat h \<le> length ci"
        and dates: "\<forall>i \<in> set [0..<nat h]. \<exists>date. month_offset lib (i + 1) = Inr date"
        by (simp_all add: rows_never_fail_def list_all_iff)
      have "\<forall>i \<in> set [0..<nat h]. \<exists>r. forecast_row_at lib d (predicted_mean fr) ci i = Inr r"
      proof
        fix i assume i: "i \<in> set [0..<nat h]"
        with dates obtain date where "month_offset lib (i + 1) = Inr date" by blast
        moreover from i len have "i < length (predicted_mean fr)" "i < length ci" by simp_all
        ultimately show "\<exists>r. forecast_row_at lib d (predicted_mean fr) ci i = Inr r"
          by (simp add: forecast_row_at_ok)
      qed
      from forecast_loop_complete [OF this, of "[]"] Some Inr ci show ?thesis
        by (simp add: region_raises_def region_rows_def export_district_try_def)
    qed
  qed
qed

lemma length_concat_region_rows:
  assumes "\<forall>d \<in> set ds. rows_never_fail lib self h d"
  shows "length (concat (map (region_rows lib self h) ds))
           = length (filter (\<lambda>d. \<not> region_raises lib self h d) ds) * nat h"
  using assms
proof (induction ds)
  case Nil
  then show ?case by simp
next
  case (Cons d ds)
  then have nf: "rows_never_fail lib self h d" by simp
  have "length (region_rows lib self h d) = (if region_raises lib self h d then 0 else nat h)"
  proof (cases "region_raises lib self h d")
    case True
    with region_rows_when_rows_never_fail [OF nf] show ?thesis by simp
  next
    case False
    with region_rows_when_rows_never_fail [OF nf]
    have "map fr_period (region_rows lib self h d) = map (\<lambda>i. int i + 1) [0..<nat h]" by simp
    then have "length (map fr_period (region_rows lib self h d)) = nat h" by simp
    with False show ?thesis by simp
  qed
  with Cons show ?case by simp
qed

lemma export_row_count_when_rows_never_fail:
  assumes "\<forall>d \<in> set (get_districts self). rows_never_fail lib self h d"
  shows "\<exists>rows. export_forecasts_csv lib self h = Inr rows \<and>
           length rows
             = length (filter (\<lambda>d. \<not> region_raises lib self h d) (get_districts self)) * nat h"
  using length_concat_region_rows [OF assms] by (simp add: export_never_raises)

lemmas export_eval =
  export_forecasts_csv_def get_districts_def export_district_try_def forecast_row_at_def
  then_do_def iloc_def round_half_even_def Let_def upt_rec

text \<open>
  Claim C8 says that a district whose forecast raises is omitted entirely from the file,
  so that the file has (districts that succeeded) times horizon rows. The rows are
  appended to the shared list inside the \<^verbatim>\<open>try\<close> block, one step at a time: a
  block that raises at a later step leaves the rows of the earlier steps in the file.
  First input: horizon 2, district A returns a single predicted value, so step 2 raises
  after the row of step 1 was appended; the file has 3 rows for one district that
  succeeded. Second input: horizon 3 with a calendar that raises from the third month
  on; both districts raise, and the file has 4 rows.
\<close>

theorem export_keeps_partial_rows:
  "(\<exists>rows. export_forecasts_csv sample_library short_forecast_registry 2 = Inr rows \<and>
           map fr_district rows = [''A'', ''B'', ''B''] \<and> map fr_period rows = [1, 1, 2]) \<and>
   snd (export_district_try sample_library ''A'' model_one_step 2 []) = Some IndexError \<and>
   snd (export_district_try sample_library ''B'' model_exact 2 []) = None \<and>
   (\<exists>rows. export_forecasts_csv bounded_calendar_library tied_registry 3 = Inr rows \<and>
           map fr_district rows = [''A'', ''A'', ''B'', ''B''] \<and> map fr_period rows = [1, 2, 1, 2]) \<and>
   snd (export_district_try bounded_calendar_library ''A'' model_exact 3 [])
     = Some (LibraryError ''out of bounds'') \<and>
   snd (export_district_try bounded_calendar_library ''B'' model_exact 3 [])
     = Some (LibraryError ''out of bounds'')"
  by (simp add: export_eval sample_library_def bounded_calendar_library_def
      short_forecast_registry_def tied_registry_def model_one_step_def model_exact_def
      sample_forecast_def one_step_forecast_def)

end
